theory Spec2Isabelle
  imports Main
begin

section \<open>Python values used throughout\<close>

text \<open>
  Strings are \<open>string\<close>; a nullable column is an \<open>option\<close>. Python's truth test on an
  optional string (\<^verbatim>\<open>if other_peer.tunnel_ip:\<close>) is false for \<^verbatim>\<open>None\<close> and for the
  empty string.
\<close>

fun truthy :: "string option \<Rightarrow> bool" where
  "truthy None = False"
| "truthy (Some s) = (s \<noteq> [])"

text \<open>\<^verbatim>\<open>sep.join(xs)\<close>.\<close>

fun join :: "string \<Rightarrow> string list \<Rightarrow> string" where
  "join sep [] = []"
| "join sep [x] = x"
| "join sep (x # y # ys) = x @ sep @ join sep (y # ys)"

text \<open>\<^verbatim>\<open>str(n)\<close> for a non-negative integer.\<close>

definition digit_char :: "nat \<Rightarrow> char" where
  "digit_char d = ''0123456789'' ! d"

fun str_nat :: "nat \<Rightarrow> string" where
  "str_nat n = (if n < 10 then [digit_char n] else str_nat (n div 10) @ [digit_char (n mod 10)])"

declare str_nat.simps [simp del]

section \<open>The overlay model (app/models)\<close>

record local_subnet =
  cidr :: string
  is_routed :: bool
  nat_enabled :: bool
  nat_translated_cidr :: "string option"

datatype service_protocol = TCP | UDP | BOTH

record published_service =
  service_id :: string
  service_name :: string
  local_ip :: string
  local_port :: nat
  shared_ip :: string
  shared_port :: nat
  protocol :: service_protocol
  is_active :: bool

datatype peer_type = MIKROTIK | GENERIC_ROUTER | SERVER | CLIENT | HUB

record peer =
  peer_id :: string
  wan_id :: string
  peer_name :: string
  ptype :: peer_type
  public_key :: "string option"
  private_key_encrypted :: "string option"
  tunnel_ip :: "string option"
  endpoint :: "string option"
  listen_port :: "nat option"
  persistent_keepalive :: "nat option"
  route_all_traffic :: bool
  local_subnets :: "local_subnet list"
  published_services :: "published_service list"

record wan_network =
  wan_network_id :: string
  wan_name :: string
  tunnel_ip_range :: string
  shared_services_range :: string

section \<open>Errors\<close>

text \<open>
  Every exception the modelled code raises is a value. An \<^verbatim>\<open>HTTPException\<close> carries its
  status code and its detail: a text, or the structured list of conflicts
  (\<^verbatim>\<open>subnet\<close>, \<^verbatim>\<open>description\<close>) that peer creation returns.
\<close>

datatype http_detail = Detail string | ConflictDetail "(string \<times> string) list"

datatype py_error =
  ValueError string | TypeError | AttributeError | NameError string | InvalidToken
  | EncryptionConfigError | MikrotikAPIError string | HTTPException nat http_detail


section \<open>Configuration generator: the WireGuard text (app/services/config_generator.py)\<close>







text \<open>
  \<^verbatim>\<open>generate_wireguard_config\<close> over the rows the queries return: the peer with its
  relations (\<^verbatim>\<open>None\<close> raises \<^verbatim>\<open>ValueError\<close>), the peers of its WAN, and \<^verbatim>\<open>peer.wan\<close>
  (the WAN row the foreign key names). \<open>now\<close> is the text of the generation time.
\<close>

definition get_wan_peers :: "peer list \<Rightarrow> string \<Rightarrow> peer list" where
  "get_wan_peers peers wid = filter (\<lambda>q. wan_id q = wid) peers"






section \<open>Properties of the generated AllowedIPs\<close>









section \<open>IP networks, after Python's \<^verbatim>\<open>ipaddress\<close> module\<close>

text \<open>
  The services parse every range with \<^verbatim>\<open>ipaddress.ip_network(cidr, strict=False)\<close>, which
  tries \<^verbatim>\<open>IPv4Network\<close>, then \<^verbatim>\<open>IPv6Network\<close>, and raises \<^verbatim>\<open>ValueError\<close> when both
  reject the text. The definitions follow the functions of the module (CPython 3.11) on
  string arguments: the IPv4 grammar is a dotted quad of decimal octets (one to three
  digits, no leading zero, at most 255), optionally followed by \<^verbatim>\<open>/\<close> and a prefix length
  of 0 to 32 or a dotted netmask or hostmask; the IPv6 grammar is up to eight hextets with
  at most one \<^verbatim>\<open>::\<close>, an optional dotted-quad tail, an optional \<^verbatim>\<open>%scope\<close>, and an
  optional \<^verbatim>\<open>/\<close> with a prefix length of 0 to 128. Host bits are masked off, not
  rejected. A text that does not parse raises in Python and is \<open>None\<close> here.
\<close>

text \<open>\<^verbatim>\<open>s.split(sep)\<close> for a one-character separator.\<close>

fun split_on :: "char \<Rightarrow> string \<Rightarrow> string list" where
  "split_on sep [] = [[]]"
| "split_on sep (c # cs) =
     (if c = sep then [] # split_on sep cs
      else (case split_on sep cs of [] \<Rightarrow> [[c]] | w # ws \<Rightarrow> (c # w) # ws))"

text \<open>\<^verbatim>\<open>s.isascii() and s.isdigit()\<close>, and \<^verbatim>\<open>int(s)\<close> on such a text.\<close>

definition isdigit :: "string \<Rightarrow> bool" where
  "isdigit s = (s \<noteq> [] \<and> list_all (\<lambda>c. 48 \<le> (of_char c :: nat) \<and> (of_char c :: nat) \<le> 57) s)"

definition int_of_digits :: "string \<Rightarrow> nat" where
  "int_of_digits s = foldl (\<lambda>acc c. 10 * acc + (of_char c - 48)) 0 s"

text \<open>
  Membership in \<^verbatim>\<open>_HEX_DIGITS\<close>, \<^verbatim>\<open>int(s, 16)\<close> on a text of such characters, and the
  format \<^verbatim>\<open>'%x' % n\<close>.
\<close>

definition is_hex_digit :: "char \<Rightarrow> bool" where
  "is_hex_digit c = (c \<in> set ''0123456789ABCDEFabcdef'')"

definition hex_value :: "char \<Rightarrow> nat" where
  "hex_value c =
     (if (of_char c :: nat) \<le> 57 then of_char c - 48
      else if (of_char c :: nat) \<le> 70 then of_char c - 55
      else of_char c - 87)"

definition int_of_hex :: "string \<Rightarrow> nat" where
  "int_of_hex s = foldl (\<lambda>acc c. 16 * acc + hex_value c) 0 s"

definition hex_char :: "nat \<Rightarrow> char" where
  "hex_char d = ''0123456789abcdef'' ! d"

fun hex_nat :: "nat \<Rightarrow> string" where
  "hex_nat n = (if n < 16 then [hex_char n] else hex_nat (n div 16) @ [hex_char (n mod 16)])"

declare hex_nat.simps [simp del]

subsection \<open>Addresses\<close>

text \<open>
  An address object: its version (4 or 6), its integer value \<^verbatim>\<open>_ip\<close> and, for IPv6, its
  scope id. \<open>int_address\<close> is the constructor from an integer, which sets no scope id.
\<close>

record ip_address =
  version :: nat
  ip_int :: nat
  scope_id :: "string option"

definition int_address :: "nat \<Rightarrow> nat \<Rightarrow> ip_address" where
  "int_address v n = \<lparr>version = v, ip_int = n, scope_id = None\<rparr>"

definition max_prefixlen :: "nat \<Rightarrow> nat" where
  "max_prefixlen v = (if v = 4 then 32 else 128)"

text \<open>\<^verbatim>\<open>_BaseV4._parse_octet\<close> and \<^verbatim>\<open>_BaseV4._ip_int_from_string\<close>.\<close>

definition parse_octet :: "string \<Rightarrow> nat option" where
  "parse_octet octet_str =
     (if octet_str = [] then None
      else if \<not> isdigit octet_str then None
      else if length octet_str > 3 then None
      else if octet_str \<noteq> ''0'' \<and> hd octet_str = CHR ''0'' then None
      else if int_of_digits octet_str > 255 then None
      else Some (int_of_digits octet_str))"

definition v4_ip_int_from_string :: "string \<Rightarrow> nat option" where
  "v4_ip_int_from_string ip_str =
     (if ip_str = [] then None
      else (case map parse_octet (split_on CHR ''.'' ip_str) of
              [Some a, Some b, Some c, Some d] \<Rightarrow> Some (((a * 256 + b) * 256 + c) * 256 + d)
            | _ \<Rightarrow> None))"

text \<open>\<^verbatim>\<open>IPv4Address(text)\<close>.\<close>

definition IPv4Address :: "string \<Rightarrow> ip_address option" where
  "IPv4Address addr_str =
     (if CHR ''/'' \<in> set addr_str then None
      else (case v4_ip_int_from_string addr_str of
              None \<Rightarrow> None
            | Some n \<Rightarrow> Some (int_address 4 n)))"

text \<open>
  \<^verbatim>\<open>_BaseV6._parse_hextet\<close>: only hex digits, at most four of them, and \<^verbatim>\<open>int(s, 16)\<close>
  rejects the empty text.
\<close>

definition parse_hextet :: "string \<Rightarrow> nat option" where
  "parse_hextet hextet_str =
     (if \<not> list_all is_hex_digit hextet_str then None
      else if length hextet_str > 4 then None
      else if hextet_str = [] then None
      else Some (int_of_hex hextet_str))"

text \<open>
  The two loops \<^verbatim>\<open>ip_int <<= 16; ip_int |= cls._parse_hextet(part)\<close>, from the accumulator
  \<open>acc\<close>; a hextet that does not parse ends them with the error.
\<close>

fun hextets_int :: "nat \<Rightarrow> string list \<Rightarrow> nat option" where
  "hextets_int acc [] = Some acc"
| "hextets_int acc (h # hs) =
     (case parse_hextet h of
        None \<Rightarrow> None
      | Some v \<Rightarrow> hextets_int (acc * 65536 + v) hs)"

text \<open>
  \<^verbatim>\<open>_BaseV6._ip_int_from_string\<close>. A dotted-quad tail is replaced by its two hextets; the
  inner empty parts locate the \<^verbatim>\<open>::\<close>, of which there is at most one; \<open>parts_hi\<close> parts
  are read before it and \<open>parts_lo\<close> after it, with \<open>parts_skipped\<close> zero hextets between.
\<close>

definition v6_ip_int_from_string :: "string \<Rightarrow> nat option" where
  "v6_ip_int_from_string ip_str =
     (if ip_str = [] then None
      else
        (let parts0 = split_on CHR '':'' ip_str in
         if length parts0 < 3 then None
         else
           (case (if CHR ''.'' \<in> set (last parts0)
                  then (case IPv4Address (last parts0) of
                          None \<Rightarrow> None
                        | Some a \<Rightarrow>
                            Some (butlast parts0
                                  @ [hex_nat ((ip_int a div 65536) mod 65536),
                                     hex_nat (ip_int a mod 65536)]))
                  else Some parts0)
            of
              None \<Rightarrow> None
            | Some parts \<Rightarrow>
                if length parts > 9 then None
                else
                  (case filter (\<lambda>i. parts ! i = []) [1..<length parts - 1] of
                     [] \<Rightarrow>
                       if length parts \<noteq> 8 then None
                       else if hd parts = [] then None
                       else if last parts = [] then None
                       else hextets_int 0 parts
                   | [skip_index] \<Rightarrow>
                       (let parts_hi = (if hd parts = [] then skip_index - 1 else skip_index);
                            parts_lo = (if last parts = [] then length parts - skip_index - 2
                                        else length parts - skip_index - 1)
                        in
                          if hd parts = [] \<and> parts_hi \<noteq> 0 then None
                          else if last parts = [] \<and> parts_lo \<noteq> 0 then None
                          else if parts_hi + parts_lo \<ge> 8 then None
                          else
                            (case hextets_int 0 (take parts_hi parts) of
                               None \<Rightarrow> None
                             | Some hi \<Rightarrow>
                                 hextets_int (hi * 65536 ^ (8 - (parts_hi + parts_lo)))
                                   (drop (length parts - parts_lo) parts)))
                   | _ \<Rightarrow> None))))"

text \<open>\<^verbatim>\<open>_split_scope_id\<close>: \<^verbatim>\<open>ip_str.partition('%')\<close>, and a scope id must not be empty or hold a \<^verbatim>\<open>%\<close>.\<close>

definition split_scope_id :: "string \<Rightarrow> (string \<times> string option) option" where
  "split_scope_id ip_str =
     (let a_str = takeWhile (\<lambda>c. c \<noteq> CHR ''%'') ip_str;
          rest = dropWhile (\<lambda>c. c \<noteq> CHR ''%'') ip_str
      in
        if rest = [] then Some (a_str, None)
        else if tl rest = [] \<or> CHR ''%'' \<in> set (tl rest) then None
        else Some (a_str, Some (tl rest)))"

text \<open>\<^verbatim>\<open>IPv6Address(text)\<close>.\<close>

definition IPv6Address :: "string \<Rightarrow> ip_address option" where
  "IPv6Address addr_str =
     (if CHR ''/'' \<in> set addr_str then None
      else (case split_scope_id addr_str of
              None \<Rightarrow> None
            | Some (a_str, scope) \<Rightarrow>
                (case v6_ip_int_from_string a_str of
                   None \<Rightarrow> None
                 | Some n \<Rightarrow> Some \<lparr>version = 6, ip_int = n, scope_id = scope\<rparr>)))"

subsection \<open>Netmasks\<close>

text \<open>
  \<^verbatim>\<open>_ip_int_from_prefix\<close>, \<^verbatim>\<open>_prefix_from_prefix_string\<close>, \<^verbatim>\<open>_prefix_from_ip_int\<close> (the
  prefix length whose netmask is the given integer, if there is one) and
  \<^verbatim>\<open>_prefix_from_ip_string\<close> (a dotted netmask, else a dotted hostmask), for the address
  length \<open>maxlen\<close>.
\<close>

definition ip_int_from_prefix :: "nat \<Rightarrow> nat \<Rightarrow> nat" where
  "ip_int_from_prefix maxlen plen = 2 ^ maxlen - 2 ^ (maxlen - plen)"

definition prefix_from_prefix_string :: "nat \<Rightarrow> string \<Rightarrow> nat option" where
  "prefix_from_prefix_string maxlen prefixlen_str =
     (if \<not> isdigit prefixlen_str then None
      else if int_of_digits prefixlen_str > maxlen then None
      else Some (int_of_digits prefixlen_str))"

definition prefix_from_ip_int :: "nat \<Rightarrow> nat \<Rightarrow> nat option" where
  "prefix_from_ip_int maxlen n = find (\<lambda>p. ip_int_from_prefix maxlen p = n) [0..<maxlen + 1]"

definition prefix_from_ip_string :: "string \<Rightarrow> nat option" where
  "prefix_from_ip_string ip_str =
     (case v4_ip_int_from_string ip_str of
        None \<Rightarrow> None
      | Some n \<Rightarrow>
          (case prefix_from_ip_int 32 n of
             Some p \<Rightarrow> Some p
           | None \<Rightarrow> prefix_from_ip_int 32 (2 ^ 32 - 1 - n)))"

text \<open>
  \<^verbatim>\<open>_make_netmask\<close> on what \<^verbatim>\<open>_split_addr_prefix\<close> hands over: the text after the \<^verbatim>\<open>/\<close>,
  or the full length when there is no \<^verbatim>\<open>/\<close>. Only IPv4 accepts the dotted forms.
\<close>

definition v4_make_netmask :: "string option \<Rightarrow> nat option" where
  "v4_make_netmask arg =
     (case arg of
        None \<Rightarrow> Some 32
      | Some m_str \<Rightarrow>
          (case prefix_from_prefix_string 32 m_str of
             Some p \<Rightarrow> Some p
           | None \<Rightarrow> prefix_from_ip_string m_str))"

definition v6_make_netmask :: "string option \<Rightarrow> nat option" where
  "v6_make_netmask arg =
     (case arg of
        None \<Rightarrow> Some 128
      | Some m_str \<Rightarrow> prefix_from_prefix_string 128 m_str)"

subsection \<open>Networks\<close>

record ip_net =
  network_address :: ip_address
  prefixlen :: nat

text \<open>\<^verbatim>\<open>_split_addr_prefix\<close>: at most one \<^verbatim>\<open>/\<close>.\<close>

definition split_addr_prefix :: "string \<Rightarrow> (string \<times> string option) option" where
  "split_addr_prefix address =
     (case split_on CHR ''/'' address of
        [a_str] \<Rightarrow> Some (a_str, None)
      | [a_str, m_str] \<Rightarrow> Some (a_str, Some m_str)
      | _ \<Rightarrow> None)"

text \<open>
  The end of both network constructors with \<^verbatim>\<open>strict=False\<close>: when the address has host
  bits set, the network address becomes the address built from the masked integer (which
  has no scope id); otherwise it stays the parsed address.
\<close>

definition masked_network :: "ip_address \<Rightarrow> nat \<Rightarrow> ip_net" where
  "masked_network a plen =
     (let host_size = 2 ^ (max_prefixlen (version a) - plen);
          masked = (ip_int a div host_size) * host_size
      in \<lparr>network_address = (if masked \<noteq> ip_int a then int_address (version a) masked else a),
          prefixlen = plen\<rparr>)"

definition IPv4Network :: "string \<Rightarrow> ip_net option" where
  "IPv4Network address =
     (case split_addr_prefix address of
        None \<Rightarrow> None
      | Some (a_str, mask_arg) \<Rightarrow>
          (case IPv4Address a_str of
             None \<Rightarrow> None
           | Some a \<Rightarrow>
               (case v4_make_netmask mask_arg of
                  None \<Rightarrow> None
                | Some plen \<Rightarrow> Some (masked_network a plen))))"

definition IPv6Network :: "string \<Rightarrow> ip_net option" where
  "IPv6Network address =
     (case split_addr_prefix address of
        None \<Rightarrow> None
      | Some (a_str, mask_arg) \<Rightarrow>
          (case IPv6Address a_str of
             None \<Rightarrow> None
           | Some a \<Rightarrow>
               (case v6_make_netmask mask_arg of
                  None \<Rightarrow> None
                | Some plen \<Rightarrow> Some (masked_network a plen))))"

definition ip_network :: "string \<Rightarrow> ip_net option" where
  "ip_network address =
     (case IPv4Network address of
        Some net \<Rightarrow> Some net
      | None \<Rightarrow> IPv6Network address)"

definition broadcast_address :: "ip_net \<Rightarrow> ip_address" where
  "broadcast_address net =
     int_address (version (network_address net))
       (ip_int (network_address net)
        + 2 ^ (max_prefixlen (version (network_address net)) - prefixlen net) - 1)"

text \<open>
  \<^verbatim>\<open>network.hosts()\<close>. An IPv4 network yields the addresses strictly between the network
  and the broadcast address, an IPv6 network those after the network address up to the
  last one. The constructors replace the method for the two longest prefixes: one below
  the full length it yields every address of the network, and at the full length the
  single parsed address.
\<close>

definition hosts :: "ip_net \<Rightarrow> ip_address list" where
  "hosts net =
     (let v = version (network_address net);
          network = ip_int (network_address net);
          broadcast = ip_int (broadcast_address net)
      in
        if prefixlen net = max_prefixlen v - 1
        then map (int_address v) [network ..< broadcast + 1]
        else if prefixlen net = max_prefixlen v then [network_address net]
        else if v = 4 then map (int_address v) [network + 1 ..< broadcast]
        else map (int_address v) [network + 1 ..< broadcast + 1])"

subsection \<open>Texts of addresses and networks\<close>

text \<open>\<^verbatim>\<open>_BaseV4._string_from_ip_int\<close>.\<close>

definition v4_string_from_ip_int :: "nat \<Rightarrow> string" where
  "v4_string_from_ip_int n = join ''.'' (map str_nat
     [n div 2 ^ 24, (n div 2 ^ 16) mod 256, (n div 2 ^ 8) mod 256, n mod 256])"

text \<open>
  \<^verbatim>\<open>_BaseV6._compress_hextets\<close>: the loop finds the first longest run of \<^verbatim>\<open>'0'\<close> hextets; a
  run of at least two is replaced by one empty text, with another empty text at an end of
  the list that the run touches, so that joining with \<^verbatim>\<open>:\<close> writes \<^verbatim>\<open>::\<close>.
\<close>

record zero_run =
  best_doublecolon_start :: int
  best_doublecolon_len :: nat
  doublecolon_start :: int
  doublecolon_len :: nat

definition scan_hextet :: "zero_run \<Rightarrow> nat \<times> string \<Rightarrow> zero_run" where
  "scan_hextet st entry =
     (if snd entry = ''0'' then
        (let run_len = doublecolon_len st + 1;
             run_start = (if doublecolon_start st = - 1 then int (fst entry)
                          else doublecolon_start st)
         in
           if run_len > best_doublecolon_len st
           then \<lparr>best_doublecolon_start = run_start, best_doublecolon_len = run_len,
                 doublecolon_start = run_start, doublecolon_len = run_len\<rparr>
           else st\<lparr>doublecolon_start := run_start, doublecolon_len := run_len\<rparr>)
      else st\<lparr>doublecolon_start := - 1, doublecolon_len := 0\<rparr>)"

definition compress_hextets :: "string list \<Rightarrow> string list" where
  "compress_hextets hextets =
     (let st = foldl scan_hextet
                 \<lparr>best_doublecolon_start = - 1, best_doublecolon_len = 0,
                  doublecolon_start = - 1, doublecolon_len = 0\<rparr>
                 (enumerate 0 hextets)
      in
        if best_doublecolon_len st > 1 then
          (let best_start = nat (best_doublecolon_start st);
               best_end = best_start + best_doublecolon_len st;
               padded = (if best_end = length hextets then hextets @ [[]] else hextets);
               replaced = take best_start padded @ [[]] @ drop best_end padded
           in if best_start = 0 then [] # replaced else replaced)
        else hextets)"

text \<open>\<^verbatim>\<open>_BaseV6._string_from_ip_int\<close>: the eight hextets in lower-case hex, compressed.\<close>

definition v6_string_from_ip_int :: "nat \<Rightarrow> string" where
  "v6_string_from_ip_int n =
     join '':'' (compress_hextets
                   (map (\<lambda>k. hex_nat ((n div 65536 ^ (7 - k)) mod 65536)) [0..<8]))"

text \<open>\<^verbatim>\<open>str(ip)\<close>, which appends the scope id of an IPv6 address, and \<^verbatim>\<open>str(network)\<close>.\<close>

definition str_ip :: "ip_address \<Rightarrow> string" where
  "str_ip a =
     (if version a = 4 then v4_string_from_ip_int (ip_int a)
      else (case scope_id a of
              None \<Rightarrow> v6_string_from_ip_int (ip_int a)
            | Some scope \<Rightarrow>
                if scope = [] then v6_string_from_ip_int (ip_int a)
                else v6_string_from_ip_int (ip_int a) @ ''%'' @ scope))"

definition str_net :: "ip_net \<Rightarrow> string" where
  "str_net net = str_ip (network_address net) @ ''/'' @ str_nat (prefixlen net)"

subsection \<open>Containment and overlap\<close>

text \<open>
  \<^verbatim>\<open>ip in network\<close> is false across versions and otherwise compares the masked address
  with the network address, which selects the addresses from the network address to the
  broadcast address. \<^verbatim>\<open>a.overlaps(b)\<close> tests the four end points. \<^verbatim>\<open>a.subnet_of(b)\<close>
  raises \<^verbatim>\<open>TypeError\<close> across versions.
\<close>

definition contains :: "ip_net \<Rightarrow> ip_address \<Rightarrow> bool" where
  "contains net a =
     (if version (network_address net) \<noteq> version a then False
      else ip_int (network_address net) \<le> ip_int a
           \<and> ip_int a \<le> ip_int (broadcast_address net))"

definition overlaps :: "ip_net \<Rightarrow> ip_net \<Rightarrow> bool" where
  "overlaps a b =
     (contains b (network_address a) \<or> contains b (broadcast_address a)
      \<or> contains a (network_address b) \<or> contains a (broadcast_address b))"

definition subnet_of :: "ip_net \<Rightarrow> ip_net \<Rightarrow> py_error + bool" where
  "subnet_of a b =
     (if version (network_address a) \<noteq> version (network_address b) then Inl TypeError
      else Inr (ip_int (network_address b) \<le> ip_int (network_address a)
                \<and> ip_int (broadcast_address a) \<le> ip_int (broadcast_address b)))"

section \<open>IP allocation (app/services/ip_allocation.py)\<close>

text \<open>
  The two queries: the tunnel addresses of the WAN's peers that are not null, and the
  shared addresses of the services of the WAN's peers.
\<close>

definition get_allocated_tunnel_ips :: "peer list \<Rightarrow> string \<Rightarrow> string set" where
  "get_allocated_tunnel_ips peers wid =
     set (List.map_filter (\<lambda>p. if wan_id p = wid then tunnel_ip p else None) peers)"

definition get_allocated_service_ips :: "peer list \<Rightarrow> string \<Rightarrow> string set" where
  "get_allocated_service_ips peers wid =
     set (concat (map (\<lambda>p. map shared_ip (published_services p))
                      (filter (\<lambda>p. wan_id p = wid) peers)))"

definition get_available_hosts :: "string \<Rightarrow> py_error + string list" where
  "get_available_hosts cidr_text =
     (case ip_network cidr_text of
        None \<Rightarrow> Inl (ValueError cidr_text)
      | Some network \<Rightarrow> Inr (map str_ip (hosts network)))"

text \<open>The loop \<^verbatim>\<open>for ip in available: if ip not in allocated: return ip\<close>, then \<^verbatim>\<open>None\<close>.\<close>

definition first_free :: "string set \<Rightarrow> string list \<Rightarrow> string option" where
  "first_free allocated available = find (\<lambda>ip. ip \<notin> allocated) available"

definition allocate_tunnel_ip :: "peer list \<Rightarrow> string \<Rightarrow> string \<Rightarrow> py_error + string option" where
  "allocate_tunnel_ip peers wid tunnel_range =
     (case get_available_hosts tunnel_range of
        Inl e \<Rightarrow> Inl e
      | Inr available \<Rightarrow> Inr (first_free (get_allocated_tunnel_ips peers wid) available))"

definition allocate_shared_service_ip ::
  "peer list \<Rightarrow> string \<Rightarrow> string \<Rightarrow> py_error + string option" where
  "allocate_shared_service_ip peers wid services_range =
     (case get_available_hosts services_range of
        Inl e \<Rightarrow> Inl e
      | Inr available \<Rightarrow> Inr (first_free (get_allocated_service_ips peers wid) available))"

section \<open>Conflict detection (app/services/conflict_detection.py)\<close>

datatype conflict_severity = CRITICAL | WARNING | INFO

datatype conflict_resolution = DONT_ROUTE | USE_NAT | CHANGE_SUBNET | SELECTIVE_ROUTING

record subnet_conflict =
  subnet :: string
  conflict_type :: string
  severity :: conflict_severity
  conflicting_with :: string
  conflicting_subnet :: string
  description :: string
  suggested_resolutions :: "conflict_resolution list"

text \<open>\<^verbatim>\<open>subnets_overlap\<close>: a text that does not parse overlaps nothing.\<close>

definition subnets_overlap :: "string \<Rightarrow> string \<Rightarrow> bool" where
  "subnets_overlap cidr1 cidr2 =
     (case ip_network cidr1 of
        None \<Rightarrow> False
      | Some net1 \<Rightarrow> (case ip_network cidr2 of None \<Rightarrow> False | Some net2 \<Rightarrow> overlaps net1 net2))"

definition tunnel_conflict :: "string \<Rightarrow> wan_network \<Rightarrow> subnet_conflict" where
  "tunnel_conflict sn wan =
     \<lparr>subnet = sn, conflict_type = ''tunnel_ip_overlap'', severity = CRITICAL,
      conflicting_with = ''WAN Tunnel Network'', conflicting_subnet = tunnel_ip_range wan,
      description = ''Subnet '' @ sn @ '' overlaps with WAN tunnel IP range ''
                    @ tunnel_ip_range wan,
      suggested_resolutions = [DONT_ROUTE, USE_NAT, CHANGE_SUBNET]\<rparr>"

definition shared_conflict :: "string \<Rightarrow> wan_network \<Rightarrow> subnet_conflict" where
  "shared_conflict sn wan =
     \<lparr>subnet = sn, conflict_type = ''shared_services_overlap'', severity = CRITICAL,
      conflicting_with = ''WAN Shared Services Network'',
      conflicting_subnet = shared_services_range wan,
      description = ''Subnet '' @ sn @ '' overlaps with shared services range ''
                    @ shared_services_range wan,
      suggested_resolutions = [DONT_ROUTE, USE_NAT, CHANGE_SUBNET]\<rparr>"

definition peer_conflict :: "string \<Rightarrow> peer \<Rightarrow> local_subnet \<Rightarrow> subnet_conflict" where
  "peer_conflict sn p ls =
     \<lparr>subnet = sn, conflict_type = ''peer_subnet_overlap'', severity = WARNING,
      conflicting_with = ''Peer: '' @ peer_name p, conflicting_subnet = cidr ls,
      description = ''Subnet '' @ sn @ '' overlaps with '' @ peer_name p @ [CHR 0x27]
                    @ ''s subnet '' @ cidr ls,
      suggested_resolutions = [USE_NAT, SELECTIVE_ROUTING, CHANGE_SUBNET]\<rparr>"

definition route_conflict :: "string \<Rightarrow> ip_net \<Rightarrow> subnet_conflict" where
  "route_conflict sn route_net =
     \<lparr>subnet = sn, conflict_type = ''existing_route_overlap'', severity = WARNING,
      conflicting_with = ''Existing routed network'', conflicting_subnet = str_net route_net,
      description = ''Subnet '' @ sn @ '' overlaps with existing routed network ''
                    @ str_net route_net,
      suggested_resolutions = [DONT_ROUTE, SELECTIVE_ROUTING, CHANGE_SUBNET]\<rparr>"

text \<open>
  \<^verbatim>\<open>[ipaddress.ip_network(r, strict=False) for r in existing_routes if r]\<close>: empty texts are
  dropped, and the first text that does not parse raises \<^verbatim>\<open>ValueError\<close> out of
  \<^verbatim>\<open>detect_conflicts\<close>, before the WAN is looked up.
\<close>

fun parse_routes :: "string list \<Rightarrow> py_error + ip_net list" where
  "parse_routes [] = Inr []"
| "parse_routes (r # rs) =
     (if r = [] then parse_routes rs
      else (case ip_network r of
              None \<Rightarrow> Inl (ValueError r)
            | Some n \<Rightarrow> (case parse_routes rs of Inl e \<Rightarrow> Inl e | Inr ns \<Rightarrow> Inr (n # ns))))"

text \<open>The body of the loop over the candidate subnets, for one subnet.\<close>

definition conflicts_of_subnet ::
  "wan_network \<Rightarrow> peer list \<Rightarrow> string \<Rightarrow> ip_net list \<Rightarrow> string \<Rightarrow> subnet_conflict list" where
  "conflicts_of_subnet wan wan_peers pid route_nets sn =
     (if subnets_overlap sn (tunnel_ip_range wan) then [tunnel_conflict sn wan] else [])
     @ (if subnets_overlap sn (shared_services_range wan) then [shared_conflict sn wan] else [])
     @ concat (map (\<lambda>p. if peer_id p = pid then []
                         else map (peer_conflict sn p)
                                (filter (\<lambda>ls. subnets_overlap sn (cidr ls)) (local_subnets p)))
                   wan_peers)
     @ concat (map (\<lambda>route_net.
                      (case ip_network sn of
                         None \<Rightarrow> []
                       | Some subnet_net \<Rightarrow>
                           if overlaps subnet_net route_net then [route_conflict sn route_net]
                           else []))
                   route_nets)"

definition detect_conflicts ::
  "wan_network list \<Rightarrow> peer list \<Rightarrow> string \<Rightarrow> string \<Rightarrow> string list \<Rightarrow> string list
     \<Rightarrow> py_error + subnet_conflict list" where
  "detect_conflicts wans peers wid pid subnets existing_routes =
     (case parse_routes existing_routes of
        Inl e \<Rightarrow> Inl e
      | Inr existing_route_nets \<Rightarrow>
          (case find (\<lambda>w. wan_network_id w = wid) wans of
             None \<Rightarrow> Inr []
           | Some wan \<Rightarrow>
               Inr (concat (map (conflicts_of_subnet wan (get_wan_peers peers wid) pid
                                   existing_route_nets) subnets))))"

text \<open>
  \<^verbatim>\<open>find_available_nat_subnet\<close>. For one candidate, the inner loop parses each existing
  subnet in turn and stops at the first overlap; a text that does not parse raises
  \<^verbatim>\<open>ValueError\<close>, which the \<^verbatim>\<open>except\<close> clause turns into \<^verbatim>\<open>continue\<close>: the candidate is
  skipped either way.
\<close>

fun candidate_free :: "ip_net \<Rightarrow> string list \<Rightarrow> bool" where
  "candidate_free candidate_net [] = True"
| "candidate_free candidate_net (existing # rest) =
     (case ip_network existing of
        None \<Rightarrow> False
      | Some existing_net \<Rightarrow>
          if overlaps candidate_net existing_net then False
          else candidate_free candidate_net rest)"

definition try_candidate :: "string list \<Rightarrow> string \<Rightarrow> string option" where
  "try_candidate existing_subnets candidate =
     (case ip_network candidate of
        None \<Rightarrow> None
      | Some candidate_net \<Rightarrow>
          if candidate_free candidate_net existing_subnets then Some (str_net candidate_net)
          else None)"

fun first_some :: "('a \<Rightarrow> 'b option) \<Rightarrow> 'a list \<Rightarrow> 'b option" where
  "first_some f [] = None"
| "first_some f (x # xs) = (case f x of Some y \<Rightarrow> Some y | None \<Rightarrow> first_some f xs)"

definition nat_candidates :: "nat \<Rightarrow> string list" where
  "nat_candidates prefix_len =
     map (\<lambda>base. ''172.'' @ str_nat base @ ''.0.0/'' @ str_nat prefix_len) [16..<32]
     @ map (\<lambda>third_octet. ''192.168.'' @ str_nat third_octet @ ''.0/'' @ str_nat prefix_len)
         [0..<256]"

definition find_available_nat_subnet :: "string \<Rightarrow> string list \<Rightarrow> py_error + string option" where
  "find_available_nat_subnet conflicting existing_subnets =
     (case ip_network conflicting of
        None \<Rightarrow> Inl (ValueError conflicting)
      | Some conflicting_net \<Rightarrow>
          Inr (first_some (try_candidate existing_subnets)
                 (nat_candidates (prefixlen conflicting_net))))"


section \<open>Secret envelope (app/core/security.py)\<close>

text \<open>
  \<^verbatim>\<open>encrypt_value\<close> and \<^verbatim>\<open>decrypt_value\<close> return a falsy argument unchanged and otherwise
  call the Fernet cipher that \<^verbatim>\<open>get_fernet\<close> builds from the configured key and salt;
  \<^verbatim>\<open>get_fernet\<close> raises \<^verbatim>\<open>EncryptionConfigError\<close> when either setting is missing. The
  cipher itself is a third-party library and is a parameter here: \<open>encrypt\<close> takes the
  entropy of the call (Fernet draws a fresh IV and the current time for every token) and
  the plaintext, \<open>decrypt\<close> answers \<open>None\<close> where Fernet raises \<^verbatim>\<open>InvalidToken\<close>. Strings
  stand for their UTF-8 bytes, on which \<^verbatim>\<open>encode\<close> and \<^verbatim>\<open>decode\<close> are the identity.
\<close>

record settings =
  ENCRYPTION_KEY :: "string option"
  ENCRYPTION_SALT :: "string option"

record 'r fernet =
  encrypt :: "'r \<Rightarrow> string \<Rightarrow> string"
  decrypt :: "string \<Rightarrow> string option"

definition validate_encryption_config :: "settings \<Rightarrow> py_error + unit" where
  "validate_encryption_config cfg =
     (if \<not> truthy (ENCRYPTION_KEY cfg) then Inl EncryptionConfigError
      else if \<not> truthy (ENCRYPTION_SALT cfg) then Inl EncryptionConfigError
      else Inr ())"

definition encrypt_value :: "settings \<Rightarrow> 'r fernet \<Rightarrow> 'r \<Rightarrow> string \<Rightarrow> py_error + string" where
  "encrypt_value cfg f r v =
     (if v = [] then Inr v
      else (case validate_encryption_config cfg of
              Inl e \<Rightarrow> Inl e
            | Inr _ \<Rightarrow> Inr (encrypt f r v)))"

definition decrypt_value :: "settings \<Rightarrow> 'r fernet \<Rightarrow> string \<Rightarrow> py_error + string" where
  "decrypt_value cfg f encrypted_value =
     (if encrypted_value = [] then Inr encrypted_value
      else (case validate_encryption_config cfg of
              Inl e \<Rightarrow> Inl e
            | Inr _ \<Rightarrow>
                (case decrypt f encrypted_value of
                   None \<Rightarrow> Inl InvalidToken
                 | Some v \<Rightarrow> Inr v)))"

text \<open>
  What the cipher promises: a token it produced is not empty and decrypts to the
  plaintext, whatever the entropy of the call was.
\<close>

definition fernet_roundtrip :: "'r fernet \<Rightarrow> bool" where
  "fernet_roundtrip f = (\<forall>r v. encrypt f r v \<noteq> [] \<and> decrypt f (encrypt f r v) = Some v)"

text \<open>
  A small cipher with that property, used to show what the property does not imply: a
  token is the marker \<^verbatim>\<open>g\<close>, one character of entropy, and the plaintext; anything that
  does not start with the marker is not a token.
\<close>

definition marker_fernet :: "char fernet" where
  "marker_fernet =
     \<lparr>encrypt = (\<lambda>r v. CHR ''g'' # r # v),
      decrypt = (\<lambda>t. case t of
                   c # r # v \<Rightarrow> if c = CHR ''g'' then Some v else None
                 | _ \<Rightarrow> None)\<rparr>"

definition configured :: settings where
  "configured = \<lparr>ENCRYPTION_KEY = Some ''key'', ENCRYPTION_SALT = Some ''salt''\<rparr>"

section \<open>Properties of the secret envelope\<close>

lemma marker_fernet_roundtrip: "fernet_roundtrip marker_fernet"
  by (simp add: fernet_roundtrip_def marker_fernet_def)

lemma configured_valid: "validate_encryption_config configured = Inr ()"
  by (simp add: validate_encryption_config_def configured_def)

text \<open>
  C4 (amended). With key and salt configured and a cipher whose tokens decrypt to their
  plaintext, \<^verbatim>\<open>decrypt_value(encrypt_value(x)) == x\<close> for every string \<open>x\<close>, and both
  functions map the empty string to the empty string (this last part needs no
  configuration and no cipher).
\<close>

theorem decrypt_encrypt_roundtrip:
  assumes "validate_encryption_config cfg = Inr ()"
    and "fernet_roundtrip f"
  shows "(\<exists>c. encrypt_value cfg f r x = Inr c \<and> decrypt_value cfg f c = Inr x)
       \<and> encrypt_value cfg' f' r' [] = Inr []
       \<and> decrypt_value cfg' f' [] = Inr []"
proof (intro conjI)
  show "\<exists>c. encrypt_value cfg f r x = Inr c \<and> decrypt_value cfg f c = Inr x"
  proof (cases "x = []")
    case True
    then show ?thesis
      by (simp add: encrypt_value_def decrypt_value_def)
  next
    case False
    have "encrypt f r x \<noteq> []" and "decrypt f (encrypt f r x) = Some x"
      using assms(2) by (simp_all add: fernet_roundtrip_def)
    then show ?thesis
      using False assms(1) by (simp add: encrypt_value_def decrypt_value_def)
  qed
  show "encrypt_value cfg' f' r' [] = Inr []"
    by (simp add: encrypt_value_def)
  show "decrypt_value cfg' f' [] = Inr []"
    by (simp add: decrypt_value_def)
qed

theorem decrypt_encrypt_roundtrip_witness:
  "validate_encryption_config configured = Inr ()
   \<and> fernet_roundtrip marker_fernet
   \<and> encrypt_value configured marker_fernet CHR ''1'' ''secret'' = Inr ''g1secret''
   \<and> decrypt_value configured marker_fernet ''g1secret'' = Inr ''secret''"
proof -
  from decrypt_encrypt_roundtrip [OF configured_valid marker_fernet_roundtrip,
      of "CHR ''1''" "''secret''", THEN conjunct1]
  obtain c where "encrypt_value configured marker_fernet CHR ''1'' ''secret'' = Inr c"
    and "decrypt_value configured marker_fernet c = Inr ''secret''"
    by blast
  moreover have "encrypt_value configured marker_fernet CHR ''1'' ''secret'' = Inr ''g1secret''"
    by (simp add: encrypt_value_def configured_valid marker_fernet_def)
  ultimately show ?thesis
    using configured_valid marker_fernet_roundtrip by auto
qed

text \<open>
  The other direction of the claim fails. \<^verbatim>\<open>decrypt_value\<close> raises \<^verbatim>\<open>InvalidToken\<close> on a
  non-empty string that is not a token, so \<^verbatim>\<open>encrypt_value(decrypt_value(x))\<close> has no value
  there; and re-encrypting the plaintext of a token under fresh entropy gives a different
  token.
\<close>

theorem encrypt_decrypt_not_identity:
  "validate_encryption_config configured = Inr ()
   \<and> fernet_roundtrip marker_fernet
   \<and> decrypt_value configured marker_fernet ''secret'' = Inl InvalidToken
   \<and> decrypt_value configured marker_fernet ''g1secret'' = Inr ''secret''
   \<and> encrypt_value configured marker_fernet CHR ''2'' ''secret'' = Inr ''g2secret''
   \<and> ''g2secret'' \<noteq> ''g1secret''"
  using configured_valid marker_fernet_roundtrip
  by (simp add: encrypt_value_def decrypt_value_def marker_fernet_def)


section \<open>Peer creation (app/api/endpoints/peers.py)\<close>

record subnet_input =
  in_cidr :: string
  in_is_routed :: bool

record peer_create =
  in_name :: string
  in_type :: peer_type
  in_endpoint :: "string option"
  in_listen_port :: "nat option"
  in_persistent_keepalive :: "nat option"
  in_mikrotik_password :: "string option"
  in_mikrotik_api_token :: "string option"
  in_local_subnets :: "subnet_input list"

text \<open>
  What the endpoint draws from outside: the new row's id (\<^verbatim>\<open>uuid4\<close>), the generated key
  pair, and the entropy of each of its calls of \<^verbatim>\<open>encrypt_value\<close>.
\<close>

record 'r fresh_peer =
  new_peer_id :: string
  new_public_key :: string
  new_private_key :: string
  key_entropy :: 'r
  password_entropy :: 'r
  token_entropy :: 'r

text \<open>
  A column declared with a default stores the default when the attribute is \<^verbatim>\<open>None\<close> at
  the insert: \<^verbatim>\<open>persistent_keepalive\<close> has \<^verbatim>\<open>default=25\<close>, \<^verbatim>\<open>listen_port\<close> has none.
\<close>

definition column_default :: "'a \<Rightarrow> 'a option \<Rightarrow> 'a option" where
  "column_default d v = (case v of None \<Rightarrow> Some d | Some x \<Rightarrow> Some x)"

text \<open>
  The MikroTik branch encrypts the password and the API token when they are truthy. The
  encrypted texts go to columns outside the \<open>peer\<close> record; what matters here is that
  either call can raise.
\<close>

definition encrypt_if_truthy ::
  "settings \<Rightarrow> 'r fernet \<Rightarrow> 'r \<Rightarrow> string option \<Rightarrow> py_error + string option" where
  "encrypt_if_truthy cfg f r v =
     (case v of
        None \<Rightarrow> Inr None
      | Some secret \<Rightarrow>
          if secret = [] then Inr None
          else (case encrypt_value cfg f r secret of
                  Inl e \<Rightarrow> Inl e
                | Inr c \<Rightarrow> Inr (Some c)))"

definition encrypt_mikrotik_secrets ::
  "settings \<Rightarrow> 'r fernet \<Rightarrow> 'r fresh_peer \<Rightarrow> peer_create \<Rightarrow> py_error + unit" where
  "encrypt_mikrotik_secrets cfg f fresh peer_in =
     (if in_type peer_in \<noteq> MIKROTIK then Inr ()
      else (case encrypt_if_truthy cfg f (password_entropy fresh) (in_mikrotik_password peer_in) of
              Inl e \<Rightarrow> Inl e
            | Inr _ \<Rightarrow>
                (case encrypt_if_truthy cfg f (token_entropy fresh)
                        (in_mikrotik_api_token peer_in) of
                   Inl e \<Rightarrow> Inl e
                 | Inr _ \<Rightarrow> Inr ())))"

text \<open>
  \<^verbatim>\<open>create_peer\<close> returns the response or the exception, and the peers table afterwards.
  The table changes only at the final \<^verbatim>\<open>commit\<close>; every exception is raised before the
  new row is added. The steps are those of the endpoint, in its order: the WAN lookup
  (404), the conflict check when subnets are declared (400 with the critical conflicts),
  the tunnel address (400 when there is none), the key pair and its encryption, the
  MikroTik secrets, the insert. Request validation runs before the endpoint body and is
  not part of it.
\<close>

definition create_peer ::
  "settings \<Rightarrow> 'r fernet \<Rightarrow> wan_network list \<Rightarrow> peer list \<Rightarrow> 'r fresh_peer \<Rightarrow> string
     \<Rightarrow> peer_create \<Rightarrow> (py_error + peer) \<times> peer list" where
  "create_peer cfg f wans peers fresh wid peer_in =
     (case find (\<lambda>w. wan_network_id w = wid) wans of
        None \<Rightarrow> (Inl (HTTPException 404 (Detail ''WAN network not found'')), peers)
      | Some wan \<Rightarrow>
          (case (if in_local_subnets peer_in = [] then Inr []
                 else detect_conflicts wans peers wid [] (map in_cidr (in_local_subnets peer_in)) [])
           of
             Inl e \<Rightarrow> (Inl e, peers)
           | Inr conflicts \<Rightarrow>
               (let critical_conflicts = filter (\<lambda>c. severity c = CRITICAL) conflicts in
                if critical_conflicts \<noteq> [] then
                  (Inl (HTTPException 400
                          (ConflictDetail (map (\<lambda>c. (subnet c, description c)) critical_conflicts))),
                   peers)
                else
                  (case allocate_tunnel_ip peers wid (tunnel_ip_range wan) of
                     Inl e \<Rightarrow> (Inl e, peers)
                   | Inr allocated \<Rightarrow>
                       if \<not> truthy allocated then
                         (Inl (HTTPException 400
                                 (Detail ''No available tunnel IPs in the WAN network'')), peers)
                       else
                         (case encrypt_value cfg f (key_entropy fresh) (new_private_key fresh) of
                            Inl e \<Rightarrow> (Inl e, peers)
                          | Inr encrypted_key \<Rightarrow>
                              (case encrypt_mikrotik_secrets cfg f fresh peer_in of
                                 Inl e \<Rightarrow> (Inl e, peers)
                               | Inr _ \<Rightarrow>
                                   (let p = \<lparr>peer_id = new_peer_id fresh, wan_id = wid,
                                             peer_name = in_name peer_in,
                                             ptype = in_type peer_in,
                                             public_key = Some (new_public_key fresh),
                                             private_key_encrypted = Some encrypted_key,
                                             tunnel_ip = allocated,
                                             endpoint = in_endpoint peer_in,
                                             listen_port = in_listen_port peer_in,
                                             persistent_keepalive =
                                               column_default 25 (in_persistent_keepalive peer_in),
                                             route_all_traffic = False,
                                             local_subnets =
                                               map (\<lambda>s. \<lparr>cidr = in_cidr s,
                                                          is_routed = in_is_routed s,
                                                          nat_enabled = False,
                                                          nat_translated_cidr = None\<rparr>)
                                                 (in_local_subnets peer_in),
                                             published_services = []\<rparr>
                                    in (Inr p, peers @ [p]))))))))"


section \<open>Evaluating the address model\<close>

lemmas ip_eval = ip_network_def IPv4Network_def split_addr_prefix_def IPv4Address_def
  v4_ip_int_from_string_def parse_octet_def isdigit_def int_of_digits_def v4_make_netmask_def
  prefix_from_prefix_string_def masked_network_def int_address_def max_prefixlen_def hosts_def
  broadcast_address_def str_ip_def str_net_def v4_string_from_ip_int_def str_nat.simps
  digit_char_def contains_def overlaps_def subnet_of_def Let_def

lemmas ip6_eval = IPv6Network_def IPv6Address_def split_scope_id_def v6_ip_int_from_string_def
  parse_hextet_def is_hex_digit_def hex_value_def int_of_hex_def v6_make_netmask_def
  v6_string_from_ip_int_def compress_hextets_def scan_hextet_def hex_nat.simps hex_char_def

lemma net_10_0_0_0_31:
  "ip_network ''10.0.0.0/31''
     = Some \<lparr>network_address = \<lparr>version = 4, ip_int = 167772160, scope_id = None\<rparr>,
             prefixlen = 31\<rparr>"
  by (simp add: ip_eval)

lemma net_10_0_0_0_24:
  "ip_network ''10.0.0.0/24''
     = Some \<lparr>network_address = \<lparr>version = 4, ip_int = 167772160, scope_id = None\<rparr>,
             prefixlen = 24\<rparr>"
  by (simp add: ip_eval)

lemma net_10_0_5_0_24:
  "ip_network ''10.0.5.0/24''
     = Some \<lparr>network_address = \<lparr>version = 4, ip_int = 167773440, scope_id = None\<rparr>,
             prefixlen = 24\<rparr>"
  by (simp add: ip_eval)

lemma net_10_0_0_0_8:
  "ip_network ''10.0.0.0/8''
     = Some \<lparr>network_address = \<lparr>version = 4, ip_int = 167772160, scope_id = None\<rparr>,
             prefixlen = 8\<rparr>"
  by (simp add: ip_eval)

lemma net_172_16_0_0_8:
  "ip_network ''172.16.0.0/8''
     = Some \<lparr>network_address = \<lparr>version = 4, ip_int = 2885681152, scope_id = None\<rparr>,
             prefixlen = 8\<rparr>"
  by (simp add: ip_eval)

lemma net_fd00_64:
  "ip_network ''fd00::/64''
     = Some \<lparr>network_address =
               \<lparr>version = 6, ip_int = 336294682933583715844663186250927177728, scope_id = None\<rparr>,
             prefixlen = 64\<rparr>"
  by (simp add: ip_eval ip6_eval)

lemma net_fd00_1_96:
  "ip_network ''fd00::1:0:0/96''
     = Some \<lparr>network_address =
               \<lparr>version = 6, ip_int = 336294682933583715844663186255222145024, scope_id = None\<rparr>,
             prefixlen = 96\<rparr>"
  by (simp add: ip_eval ip6_eval)

section \<open>The allocator hands out the network address of a /31 pool\<close>

text \<open>
  C2 fails on the code. \<^verbatim>\<open>get_available_hosts\<close> carries the comment
  \<^verbatim>\<open>Skip network address and broadcast address\<close> and relies on \<^verbatim>\<open>network.hosts()\<close>
  for it, but for a pool of prefix length 31 that method yields both addresses of the
  network (and for prefix length 32 the single address, which is both). With nothing
  allocated, the tunnel and the service allocation on 10.0.0.0/31 return 10.0.0.0, the
  network address of the pool; the only other address offered, 10.0.0.1, is its broadcast
  address.
\<close>

theorem allocation_returns_network_address_of_slash_31:
  "ip_network ''10.0.0.0/31''
     = Some \<lparr>network_address = \<lparr>version = 4, ip_int = 167772160, scope_id = None\<rparr>,
             prefixlen = 31\<rparr>
   \<and> get_available_hosts ''10.0.0.0/31'' = Inr [''10.0.0.0'', ''10.0.0.1'']
   \<and> allocate_tunnel_ip [] ''W'' ''10.0.0.0/31'' = Inr (Some ''10.0.0.0'')
   \<and> allocate_shared_service_ip [] ''W'' ''10.0.0.0/31'' = Inr (Some ''10.0.0.0'')
   \<and> str_ip (network_address
        \<lparr>network_address = \<lparr>version = 4, ip_int = 167772160, scope_id = None\<rparr>,
         prefixlen = 31\<rparr>) = ''10.0.0.0''
   \<and> str_ip (broadcast_address
        \<lparr>network_address = \<lparr>version = 4, ip_int = 167772160, scope_id = None\<rparr>,
         prefixlen = 31\<rparr>) = ''10.0.0.1''"
proof -
  have h31: "get_available_hosts ''10.0.0.0/31'' = Inr [''10.0.0.0'', ''10.0.0.1'']"
    by (simp add: get_available_hosts_def net_10_0_0_0_31 hosts_def broadcast_address_def
        max_prefixlen_def int_address_def str_ip_def v4_string_from_ip_int_def str_nat.simps
        digit_char_def upt_rec Let_def)
  have t31: "allocate_tunnel_ip [] ''W'' ''10.0.0.0/31'' = Inr (Some ''10.0.0.0'')"
    by (simp add: allocate_tunnel_ip_def h31 first_free_def get_allocated_tunnel_ips_def
        List.map_filter_simps)
  have s31: "allocate_shared_service_ip [] ''W'' ''10.0.0.0/31'' = Inr (Some ''10.0.0.0'')"
    by (simp add: allocate_shared_service_ip_def h31 first_free_def
        get_allocated_service_ips_def)
  have na: "str_ip (network_address
        \<lparr>network_address = \<lparr>version = 4, ip_int = 167772160, scope_id = None\<rparr>,
         prefixlen = 31\<rparr>) = ''10.0.0.0''"
    by (simp add: str_ip_def v4_string_from_ip_int_def str_nat.simps digit_char_def)
  have ba: "str_ip (broadcast_address
        \<lparr>network_address = \<lparr>version = 4, ip_int = 167772160, scope_id = None\<rparr>,
         prefixlen = 31\<rparr>) = ''10.0.0.1''"
    by (simp add: broadcast_address_def max_prefixlen_def int_address_def str_ip_def
        v4_string_from_ip_int_def str_nat.simps digit_char_def)
  show ?thesis
    using net_10_0_0_0_31 h31 t31 s31 na ba by (simp only: simp_thms)
qed


section \<open>Properties of conflict detection\<close>

lemma tunnel_conflict_in_subnet:
  "subnets_overlap sn (tunnel_ip_range wan) \<Longrightarrow>
   tunnel_conflict sn wan \<in> set (conflicts_of_subnet wan wan_peers pid route_nets sn)"
  by (simp add: conflicts_of_subnet_def)

lemma detect_conflicts_tunnel:
  assumes "find (\<lambda>w. wan_network_id w = wid) wans = Some wan"
    and "parse_routes existing_routes = Inr route_nets"
    and "sn \<in> set subnets"
    and "subnets_overlap sn (tunnel_ip_range wan)"
  shows "\<exists>cs. detect_conflicts wans peers wid pid subnets existing_routes = Inr cs
              \<and> tunnel_conflict sn wan \<in> set cs"
  using assms by (auto simp: detect_conflicts_def intro: tunnel_conflict_in_subnet)

lemma create_peer_critical:
  assumes wan: "find (\<lambda>w. wan_network_id w = wid) wans = Some wan"
    and declared: "sn \<in> in_cidr ` set (in_local_subnets peer_in)"
    and overlap: "subnets_overlap sn (tunnel_ip_range wan)"
  shows "\<exists>cs. create_peer cfg f wans peers fresh wid peer_in
                = (Inl (HTTPException 400 (ConflictDetail cs)), peers)
              \<and> (sn, description (tunnel_conflict sn wan)) \<in> set cs"
proof -
  have nonempty: "in_local_subnets peer_in \<noteq> []"
    using declared by auto
  have mem: "sn \<in> set (map in_cidr (in_local_subnets peer_in))"
    using declared by simp
  have routes: "parse_routes [] = Inr []"
    by simp
  from detect_conflicts_tunnel [where peers = peers and pid = "[]", OF wan routes mem overlap]
  obtain conflicts where
    dc: "detect_conflicts wans peers wid [] (map in_cidr (in_local_subnets peer_in)) []
           = Inr conflicts"
    and mem: "tunnel_conflict sn wan \<in> set conflicts"
    by blast
  let ?critical = "filter (\<lambda>c. severity c = CRITICAL) conflicts"
  have crit: "tunnel_conflict sn wan \<in> set ?critical"
    using mem by (simp add: tunnel_conflict_def)
  have ne: "?critical \<noteq> []"
    using crit by (metis list.set(1) empty_iff)
  have res: "create_peer cfg f wans peers fresh wid peer_in
          = (Inl (HTTPException 400
                    (ConflictDetail (map (\<lambda>c. (subnet c, description c)) ?critical))), peers)"
    using wan nonempty dc ne by (simp add: create_peer_def Let_def)
  from crit
  have "(\<lambda>c. (subnet c, description c)) (tunnel_conflict sn wan)
          \<in> (\<lambda>c. (subnet c, description c)) ` set ?critical"
    by (rule imageI)
  then have "(sn, description (tunnel_conflict sn wan))
          \<in> set (map (\<lambda>c. (subnet c, description c)) ?critical)"
    by (simp add: tunnel_conflict_def)
  with res show ?thesis
    by blast
qed

text \<open>
  C5 (amended). For every candidate subnet, IPv4 or IPv6, that overlaps the tunnel range
  of an existing WAN: when every non-empty text among the existing routes parses as a
  network, \<^verbatim>\<open>detect_conflicts\<close> emits for that subnet the conflict of type
  \<^verbatim>\<open>tunnel_ip_overlap\<close>, severity critical, with suggested resolutions exactly dont_route,
  use_nat and change_subnet; and creating a peer that declares such a subnet (which passes
  no existing routes) fails with HTTP 400 whose detail lists the conflict, leaving the
  peers table unchanged, whatever the encryption settings are.
\<close>

theorem critical_tunnel_overlap_conflict:
  assumes wan: "find (\<lambda>w. wan_network_id w = wid) wans = Some wan"
    and overlap: "subnets_overlap sn (tunnel_ip_range wan)"
  shows "subnet (tunnel_conflict sn wan) = sn
       \<and> conflict_type (tunnel_conflict sn wan) = ''tunnel_ip_overlap''
       \<and> severity (tunnel_conflict sn wan) = CRITICAL
       \<and> set (suggested_resolutions (tunnel_conflict sn wan)) = {DONT_ROUTE, USE_NAT, CHANGE_SUBNET}
       \<and> (\<forall>peers pid subnets existing_routes route_nets.
             sn \<in> set subnets \<longrightarrow> parse_routes existing_routes = Inr route_nets \<longrightarrow>
             (\<exists>cs. detect_conflicts wans peers wid pid subnets existing_routes = Inr cs
                   \<and> tunnel_conflict sn wan \<in> set cs))
       \<and> (\<forall>cfg (f :: 'r fernet) peers fresh peer_in.
             sn \<in> in_cidr ` set (in_local_subnets peer_in) \<longrightarrow>
             (\<exists>cs. create_peer cfg f wans peers fresh wid peer_in
                     = (Inl (HTTPException 400 (ConflictDetail cs)), peers)
                   \<and> (sn, description (tunnel_conflict sn wan)) \<in> set cs))"
proof (intro conjI allI impI)
  show "subnet (tunnel_conflict sn wan) = sn"
    and "conflict_type (tunnel_conflict sn wan) = ''tunnel_ip_overlap''"
    and "severity (tunnel_conflict sn wan) = CRITICAL"
    and "set (suggested_resolutions (tunnel_conflict sn wan)) = {DONT_ROUTE, USE_NAT, CHANGE_SUBNET}"
    by (simp_all add: tunnel_conflict_def)
next
  fix peers :: "peer list" and pid subnets existing_routes route_nets
  assume "sn \<in> set subnets" "parse_routes existing_routes = Inr route_nets"
  then show "\<exists>cs. detect_conflicts wans peers wid pid subnets existing_routes = Inr cs
                  \<and> tunnel_conflict sn wan \<in> set cs"
    using wan overlap by (intro detect_conflicts_tunnel)
next
  fix cfg :: settings and f :: "'r fernet" and peers :: "peer list"
    and fresh :: "'r fresh_peer" and peer_in :: peer_create
  assume "sn \<in> in_cidr ` set (in_local_subnets peer_in)"
  then show "\<exists>cs. create_peer cfg f wans peers fresh wid peer_in
                    = (Inl (HTTPException 400 (ConflictDetail cs)), peers)
                  \<and> (sn, description (tunnel_conflict sn wan)) \<in> set cs"
    using wan overlap by (intro create_peer_critical)
qed

text \<open>
  Scenario S2: a WAN with the default ranges (tunnel range 10.0.0.0/24, shared services
  range 10.0.5.0/24) and a new peer declaring 10.0.0.0/24. The same with IPv6 ranges: a
  WAN whose tunnel range is fd00::/64 and a new peer declaring fd00::1:0:0/96.
\<close>

definition s2_wan :: wan_network where
  "s2_wan = \<lparr>wan_network_id = ''W'', wan_name = ''w'', tunnel_ip_range = ''10.0.0.0/24'',
     shared_services_range = ''10.0.5.0/24''\<rparr>"

definition s2_input :: peer_create where
  "s2_input = \<lparr>in_name = ''peer'', in_type = SERVER, in_endpoint = None,
     in_listen_port = Some 51820, in_persistent_keepalive = Some 25,
     in_mikrotik_password = None, in_mikrotik_api_token = None,
     in_local_subnets = [\<lparr>in_cidr = ''10.0.0.0/24'', in_is_routed = True\<rparr>]\<rparr>"

definition s2_fresh :: "char fresh_peer" where
  "s2_fresh = \<lparr>new_peer_id = ''1'', new_public_key = ''K'', new_private_key = ''k'',
     key_entropy = CHR ''1'', password_entropy = CHR ''2'', token_entropy = CHR ''3''\<rparr>"

definition s2_wan_v6 :: wan_network where
  "s2_wan_v6 = \<lparr>wan_network_id = ''W'', wan_name = ''w'', tunnel_ip_range = ''fd00::/64'',
     shared_services_range = ''10.0.5.0/24''\<rparr>"

definition s2_input_v6 :: peer_create where
  "s2_input_v6 = \<lparr>in_name = ''peer'', in_type = SERVER, in_endpoint = None,
     in_listen_port = Some 51820, in_persistent_keepalive = Some 25,
     in_mikrotik_password = None, in_mikrotik_api_token = None,
     in_local_subnets = [\<lparr>in_cidr = ''fd00::1:0:0/96'', in_is_routed = True\<rparr>]\<rparr>"

lemma s2_overlaps_tunnel: "subnets_overlap ''10.0.0.0/24'' (tunnel_ip_range s2_wan)"
  by (simp add: s2_wan_def subnets_overlap_def net_10_0_0_0_24 overlaps_def contains_def
      broadcast_address_def max_prefixlen_def int_address_def)

lemma s2_misses_shared: "\<not> subnets_overlap ''10.0.0.0/24'' (shared_services_range s2_wan)"
  by (simp add: s2_wan_def subnets_overlap_def net_10_0_0_0_24 net_10_0_5_0_24 overlaps_def
      contains_def broadcast_address_def max_prefixlen_def int_address_def)

lemma s2_overlaps_tunnel_v6: "subnets_overlap ''fd00::1:0:0/96'' (tunnel_ip_range s2_wan_v6)"
  by (simp add: s2_wan_v6_def subnets_overlap_def net_fd00_64 net_fd00_1_96 overlaps_def
      contains_def broadcast_address_def max_prefixlen_def int_address_def)

lemma s2_create_peer:
  "create_peer configured marker_fernet [s2_wan] [] s2_fresh ''W'' s2_input
     = (Inl (HTTPException 400 (ConflictDetail
          [(''10.0.0.0/24'',
            ''Subnet 10.0.0.0/24 overlaps with WAN tunnel IP range 10.0.0.0/24'')])), [])"
proof -
  have "conflicts_of_subnet s2_wan [] [] [] ''10.0.0.0/24''
          = [tunnel_conflict ''10.0.0.0/24'' s2_wan]"
    using s2_overlaps_tunnel s2_misses_shared by (simp add: conflicts_of_subnet_def)
  then have "detect_conflicts [s2_wan] [] ''W'' [] [''10.0.0.0/24''] []
          = Inr [tunnel_conflict ''10.0.0.0/24'' s2_wan]"
    by (simp add: detect_conflicts_def get_wan_peers_def s2_wan_def)
  then show ?thesis
    by (simp add: create_peer_def s2_input_def tunnel_conflict_def s2_wan_def)
qed

theorem critical_tunnel_overlap_conflict_witness:
  "find (\<lambda>w. wan_network_id w = ''W'') [s2_wan] = Some s2_wan
   \<and> subnets_overlap ''10.0.0.0/24'' (tunnel_ip_range s2_wan)
   \<and> (\<exists>cs. detect_conflicts [s2_wan] [] ''W'' [] [''10.0.0.0/24''] [] = Inr cs
          \<and> tunnel_conflict ''10.0.0.0/24'' s2_wan \<in> set cs)
   \<and> create_peer configured marker_fernet [s2_wan] [] s2_fresh ''W'' s2_input
       = (Inl (HTTPException 400 (ConflictDetail
            [(''10.0.0.0/24'',
              ''Subnet 10.0.0.0/24 overlaps with WAN tunnel IP range 10.0.0.0/24'')])), [])
   \<and> find (\<lambda>w. wan_network_id w = ''W'') [s2_wan_v6] = Some s2_wan_v6
   \<and> subnets_overlap ''fd00::1:0:0/96'' (tunnel_ip_range s2_wan_v6)
   \<and> (\<exists>cs. create_peer configured marker_fernet [s2_wan_v6] [] s2_fresh ''W'' s2_input_v6
              = (Inl (HTTPException 400 (ConflictDetail cs)), [])
          \<and> (''fd00::1:0:0/96'', description (tunnel_conflict ''fd00::1:0:0/96'' s2_wan_v6))
              \<in> set cs)"
proof -
  have wan: "find (\<lambda>w. wan_network_id w = ''W'') [s2_wan] = Some s2_wan"
    by (simp add: s2_wan_def)
  have wan6: "find (\<lambda>w. wan_network_id w = ''W'') [s2_wan_v6] = Some s2_wan_v6"
    by (simp add: s2_wan_v6_def)
  have routes: "parse_routes [] = Inr []"
    by simp
  have mem: "''10.0.0.0/24'' \<in> set [''10.0.0.0/24'']"
    by simp
  have mem6: "''fd00::1:0:0/96'' \<in> in_cidr ` set (in_local_subnets s2_input_v6)"
    by (simp add: s2_input_v6_def)
  from critical_tunnel_overlap_conflict [OF wan s2_overlaps_tunnel]
  have "\<forall>peers pid subnets existing_routes route_nets.
          ''10.0.0.0/24'' \<in> set subnets \<longrightarrow> parse_routes existing_routes = Inr route_nets \<longrightarrow>
          (\<exists>cs. detect_conflicts [s2_wan] peers ''W'' pid subnets existing_routes = Inr cs
                \<and> tunnel_conflict ''10.0.0.0/24'' s2_wan \<in> set cs)"
    by (elim conjE)
  from this [rule_format, OF mem routes, of "[]" "[]"]
  have detect: "\<exists>cs. detect_conflicts [s2_wan] [] ''W'' [] [''10.0.0.0/24''] [] = Inr cs
                \<and> tunnel_conflict ''10.0.0.0/24'' s2_wan \<in> set cs" .
  from critical_tunnel_overlap_conflict [OF wan6 s2_overlaps_tunnel_v6]
  have "\<forall>cfg (f :: char fernet) peers fresh peer_in.
          ''fd00::1:0:0/96'' \<in> in_cidr ` set (in_local_subnets peer_in) \<longrightarrow>
          (\<exists>cs. create_peer cfg f [s2_wan_v6] peers fresh ''W'' peer_in
                  = (Inl (HTTPException 400 (ConflictDetail cs)), peers)
                \<and> (''fd00::1:0:0/96'', description (tunnel_conflict ''fd00::1:0:0/96'' s2_wan_v6))
                    \<in> set cs)"
    by (elim conjE)
  from this [rule_format, OF mem6, of configured marker_fernet "[]" s2_fresh]
  have create6: "\<exists>cs. create_peer configured marker_fernet [s2_wan_v6] [] s2_fresh ''W'' s2_input_v6
              = (Inl (HTTPException 400 (ConflictDetail cs)), [])
          \<and> (''fd00::1:0:0/96'', description (tunnel_conflict ''fd00::1:0:0/96'' s2_wan_v6))
              \<in> set cs" .
  show ?thesis
    using wan s2_overlaps_tunnel detect s2_create_peer wan6 s2_overlaps_tunnel_v6 create6
    by (simp only: simp_thms)
qed

text \<open>
  The claim as stated fails when an existing route does not parse: \<^verbatim>\<open>detect_conflicts\<close>
  builds the networks of the existing routes before anything else, outside any \<^verbatim>\<open>try\<close>,
  so the \<^verbatim>\<open>ValueError\<close> leaves the function and no conflict is emitted, although the
  candidate subnet overlaps the tunnel range of the WAN.
\<close>

theorem detect_conflicts_raises_on_unparsable_route:
  "find (\<lambda>w. wan_network_id w = ''W'') [s2_wan] = Some s2_wan
   \<and> subnets_overlap ''10.0.0.0/24'' (tunnel_ip_range s2_wan)
   \<and> ip_network ''not-a-network'' = None
   \<and> detect_conflicts [s2_wan] [] ''W'' [] [''10.0.0.0/24''] [''not-a-network'']
       = Inl (ValueError ''not-a-network'')"
proof -
  have wan: "find (\<lambda>w. wan_network_id w = ''W'') [s2_wan] = Some s2_wan"
    by (simp add: s2_wan_def)
  have bad: "ip_network ''not-a-network'' = None"
    by (simp add: ip_eval ip6_eval)
  have "detect_conflicts [s2_wan] [] ''W'' [] [''10.0.0.0/24''] [''not-a-network'']
       = Inl (ValueError ''not-a-network'')"
    by (simp add: detect_conflicts_def bad)
  then show ?thesis
    using wan s2_overlaps_tunnel bad by (simp only: simp_thms)
qed

section \<open>The NAT subnet search leaves the private ranges\<close>

text \<open>
  C6 fails on the code. The candidates are built from the texts \<^verbatim>\<open>172.{base}.0.0/{prefix}\<close>
  and \<^verbatim>\<open>192.168.{n}.0/{prefix}\<close> and parsed with \<^verbatim>\<open>strict=False\<close>, which masks the host
  bits off: for a prefix length below 12 the first candidate 172.16.0.0/8 becomes the
  network 172.0.0.0/8, which is not inside 172.16.0.0/12 (nor inside 192.168.0.0/16).
  With no existing subnets it is returned.
\<close>

lemma nat_candidates_8_first:
  "\<exists>rest. nat_candidates 8 = ''172.16.0.0/8'' # rest"
  by (simp add: nat_candidates_def str_nat.simps digit_char_def)

lemma try_first_candidate_8:
  "try_candidate [] ''172.16.0.0/8'' = Some ''172.0.0.0/8''"
  by (simp add: try_candidate_def net_172_16_0_0_8 str_net_def str_ip_def
      v4_string_from_ip_int_def str_nat.simps digit_char_def)

theorem nat_subnet_outside_private_ranges:
  "find_available_nat_subnet ''10.0.0.0/8'' [] = Inr (Some ''172.0.0.0/8'')
   \<and> ip_network ''172.0.0.0/8''
       = Some \<lparr>network_address = \<lparr>version = 4, ip_int = 2885681152, scope_id = None\<rparr>,
               prefixlen = 8\<rparr>
   \<and> ip_network ''172.16.0.0/12''
       = Some \<lparr>network_address = \<lparr>version = 4, ip_int = 2886729728, scope_id = None\<rparr>,
               prefixlen = 12\<rparr>
   \<and> ip_network ''192.168.0.0/16''
       = Some \<lparr>network_address = \<lparr>version = 4, ip_int = 3232235520, scope_id = None\<rparr>,
               prefixlen = 16\<rparr>
   \<and> subnet_of \<lparr>network_address = \<lparr>version = 4, ip_int = 2885681152, scope_id = None\<rparr>,
                 prefixlen = 8\<rparr>
               \<lparr>network_address = \<lparr>version = 4, ip_int = 2886729728, scope_id = None\<rparr>,
                 prefixlen = 12\<rparr> = Inr False
   \<and> subnet_of \<lparr>network_address = \<lparr>version = 4, ip_int = 2885681152, scope_id = None\<rparr>,
                 prefixlen = 8\<rparr>
               \<lparr>network_address = \<lparr>version = 4, ip_int = 3232235520, scope_id = None\<rparr>,
                 prefixlen = 16\<rparr> = Inr False"
proof -
  obtain rest where c: "nat_candidates 8 = ''172.16.0.0/8'' # rest"
    using nat_candidates_8_first by blast
  have "find_available_nat_subnet ''10.0.0.0/8'' [] = Inr (Some ''172.0.0.0/8'')"
    by (simp add: find_available_nat_subnet_def net_10_0_0_0_8 c try_first_candidate_8)
  moreover have "ip_network ''172.0.0.0/8''
      = Some \<lparr>network_address = \<lparr>version = 4, ip_int = 2885681152, scope_id = None\<rparr>,
              prefixlen = 8\<rparr>"
    by (simp add: ip_eval)
  moreover have "ip_network ''172.16.0.0/12''
      = Some \<lparr>network_address = \<lparr>version = 4, ip_int = 2886729728, scope_id = None\<rparr>,
              prefixlen = 12\<rparr>"
    by (simp add: ip_eval)
  moreover have "ip_network ''192.168.0.0/16''
      = Some \<lparr>network_address = \<lparr>version = 4, ip_int = 3232235520, scope_id = None\<rparr>,
              prefixlen = 16\<rparr>"
    by (simp add: ip_eval)
  moreover have "subnet_of
      \<lparr>network_address = \<lparr>version = 4, ip_int = 2885681152, scope_id = None\<rparr>, prefixlen = 8\<rparr>
      \<lparr>network_address = \<lparr>version = 4, ip_int = 2886729728, scope_id = None\<rparr>, prefixlen = 12\<rparr>
        = Inr False"
    by (simp add: subnet_of_def broadcast_address_def max_prefixlen_def int_address_def)
  moreover have "subnet_of
      \<lparr>network_address = \<lparr>version = 4, ip_int = 2885681152, scope_id = None\<rparr>, prefixlen = 8\<rparr>
      \<lparr>network_address = \<lparr>version = 4, ip_int = 3232235520, scope_id = None\<rparr>, prefixlen = 16\<rparr>
        = Inr False"
    by (simp add: subnet_of_def broadcast_address_def max_prefixlen_def int_address_def)
  ultimately show ?thesis
    by (simp only: simp_thms)
qed


section \<open>Router API client (app/services/mikrotik_client.py)\<close>

text \<open>
  A router resource is the dictionary the API returns: its \<^verbatim>\<open>.id\<close>, the optional keys
  the code reads (\<^verbatim>\<open>comment\<close>, \<^verbatim>\<open>name\<close>, \<^verbatim>\<open>interface\<close>, \<^verbatim>\<open>running\<close>) and its other fields.
  The router holds one list of resources per family. It is the client's peer, not code of
  the repository: \<open>delete\<close> removes the resource with the given id and \<open>add\<close> appends one.
\<close>

record resource =
  dot_id :: string
  comment :: "string option"
  res_name :: "string option"
  interface :: "string option"
  running :: bool
  attrs :: "(string \<times> string) list"

datatype family = WG_INTERFACE | WG_PEER | IP_ADDRESS | ROUTE | FIREWALL_FILTER | NAT_RULE

record router =
  wireguard_interfaces :: "resource list"
  wireguard_peers :: "resource list"
  ip_addresses :: "resource list"
  routes :: "resource list"
  firewall_filter_rules :: "resource list"
  nat_rules :: "resource list"

definition COMMENT_PREFIX :: string where
  "COMMENT_PREFIX = ''WAN-Overlay-Manager:''"

text \<open>\<^verbatim>\<open>s.startswith(p)\<close> and the substring test \<^verbatim>\<open>sub in s\<close>.\<close>

definition startswith :: "string \<Rightarrow> string \<Rightarrow> bool" where
  "startswith s p = (take (length p) s = p)"

fun contains_str :: "string \<Rightarrow> string \<Rightarrow> bool" where
  "contains_str sub [] = (sub = [])"
| "contains_str sub (c # cs) = (startswith (c # cs) sub \<or> contains_str sub cs)"

text \<open>\<^verbatim>\<open>r.get("comment", "")\<close>.\<close>

definition comment_or_empty :: "resource \<Rightarrow> string" where
  "comment_or_empty r = (case comment r of None \<Rightarrow> [] | Some c \<Rightarrow> c)"

text \<open>
  The list operations with \<^verbatim>\<open>comment_filter\<close>:
  \<^verbatim>\<open>[r for r in result if comment_filter in r.get("comment", "")]\<close>.
\<close>

definition comment_filtered :: "string \<Rightarrow> resource list \<Rightarrow> resource list" where
  "comment_filtered comment_filter result =
     (if comment_filter = [] then result
      else filter (\<lambda>r. contains_str comment_filter (comment_or_empty r)) result)"

fun get_family :: "family \<Rightarrow> router \<Rightarrow> resource list" where
  "get_family WG_INTERFACE r = wireguard_interfaces r"
| "get_family WG_PEER r = wireguard_peers r"
| "get_family IP_ADDRESS r = ip_addresses r"
| "get_family ROUTE r = routes r"
| "get_family FIREWALL_FILTER r = firewall_filter_rules r"
| "get_family NAT_RULE r = nat_rules r"

fun set_family :: "family \<Rightarrow> resource list \<Rightarrow> router \<Rightarrow> router" where
  "set_family WG_INTERFACE xs r = r\<lparr>wireguard_interfaces := xs\<rparr>"
| "set_family WG_PEER xs r = r\<lparr>wireguard_peers := xs\<rparr>"
| "set_family IP_ADDRESS xs r = r\<lparr>ip_addresses := xs\<rparr>"
| "set_family ROUTE xs r = r\<lparr>routes := xs\<rparr>"
| "set_family FIREWALL_FILTER xs r = r\<lparr>firewall_filter_rules := xs\<rparr>"
| "set_family NAT_RULE xs r = r\<lparr>nat_rules := xs\<rparr>"

definition delete_resource :: "family \<Rightarrow> string \<Rightarrow> router \<Rightarrow> router" where
  "delete_resource fam rid r = set_family fam (filter (\<lambda>x. dot_id x \<noteq> rid) (get_family fam r)) r"

definition add_resource :: "family \<Rightarrow> resource \<Rightarrow> router \<Rightarrow> router" where
  "add_resource fam x r = set_family fam (get_family fam r @ [x]) r"

text \<open>
  The dictionary \<^verbatim>\<open>get_managed_resources\<close> returns: every family, listed with the prefix as
  comment filter.
\<close>

definition get_managed_resources :: "router \<Rightarrow> router" where
  "get_managed_resources r =
     \<lparr>wireguard_interfaces = comment_filtered COMMENT_PREFIX (wireguard_interfaces r),
      wireguard_peers = comment_filtered COMMENT_PREFIX (wireguard_peers r),
      ip_addresses = comment_filtered COMMENT_PREFIX (ip_addresses r),
      routes = comment_filtered COMMENT_PREFIX (routes r),
      firewall_filter_rules = comment_filtered COMMENT_PREFIX (firewall_filter_rules r),
      nat_rules = comment_filtered COMMENT_PREFIX (nat_rules r)\<rparr>"


section \<open>Deployment jobs (app/models/deployment.py)\<close>

datatype job_type = DEPLOY_CONFIG | ROLLBACK | VERIFY | TEST_CONNECTION

datatype job_status = PENDING | RUNNING | COMPLETED | FAILED | CANCELLED

record deployment_job =
  job_id :: string
  job_peer_id :: string
  jtype :: job_type
  status :: job_status
  progress_percent :: nat
  backup_config :: "router option"
  created_by_id :: "string option"


section \<open>Runs against the router\<close>

text \<open>
  Code that talks to the router is a sequence of statements, some of which are calls of
  the router client. The state of a run holds the router, the exception raised so far, if
  any, and the trace of what the run has done. Any client call may raise: \<open>failing n\<close> is
  the exception of the \<open>n\<close>-th call, if it raises one. A call that raises has no effect on
  the router. Once an exception is raised (\<open>raised\<close>), the statements that follow are
  skipped. The trace also has the events of the apply worker, which assigns to its job
  and commits between its calls.
\<close>

datatype write_op = Add family resource | Update family string resource | Remove family string

datatype event =
  SetStatus job_status | SetProgress nat | SetBackup router | Commit
  | TestConnection | ClientRead family | ClientWrite write_op

record run_state =
  device :: router
  failing :: "nat \<Rightarrow> py_error option"
  calls :: nat
  raised :: "py_error option"
  trace :: "event list"

definition init_run :: "router \<Rightarrow> (nat \<Rightarrow> py_error option) \<Rightarrow> run_state" where
  "init_run r f = \<lparr>device = r, failing = f, calls = 0, raised = None, trace = []\<rparr>"

definition raise :: "py_error \<Rightarrow> 'a run_state_scheme \<Rightarrow> 'a run_state_scheme" where
  "raise e st = st\<lparr>raised := Some e\<rparr>"

fun apply_write :: "write_op \<Rightarrow> router \<Rightarrow> router" where
  "apply_write (Add fam x) r = add_resource fam x r"
| "apply_write (Remove fam rid) r = delete_resource fam rid r"
| "apply_write (Update fam rid x) r =
     set_family fam
       (map (\<lambda>y. if dot_id y = rid then y\<lparr>comment := comment x, attrs := attrs x\<rparr> else y)
          (get_family fam r)) r"

text \<open>
  A list operation (\<^verbatim>\<open>print\<close>) and a changing operation (\<^verbatim>\<open>add\<close>, \<^verbatim>\<open>set\<close>, \<^verbatim>\<open>remove\<close>) of the
  client. What a successful list operation returns is read off \<open>device\<close> by the caller.
\<close>

definition client_read :: "family \<Rightarrow> 'a run_state_scheme \<Rightarrow> 'a run_state_scheme" where
  "client_read fam st =
     (case failing st (calls st) of
        Some e \<Rightarrow>
          st\<lparr>calls := Suc (calls st), raised := Some e, trace := trace st @ [ClientRead fam]\<rparr>
      | None \<Rightarrow> st\<lparr>calls := Suc (calls st), trace := trace st @ [ClientRead fam]\<rparr>)"

definition client_write :: "write_op \<Rightarrow> 'a run_state_scheme \<Rightarrow> 'a run_state_scheme" where
  "client_write w st =
     (case failing st (calls st) of
        Some e \<Rightarrow>
          st\<lparr>calls := Suc (calls st), raised := Some e, trace := trace st @ [ClientWrite w]\<rparr>
      | None \<Rightarrow>
          st\<lparr>calls := Suc (calls st), device := apply_write w (device st),
             trace := trace st @ [ClientWrite w]\<rparr>)"

text \<open>Statements in sequence: a statement runs only while no exception is raised.\<close>

definition step ::
  "('a run_state_scheme \<Rightarrow> 'a run_state_scheme) \<Rightarrow> 'a run_state_scheme \<Rightarrow> 'a run_state_scheme" where
  "step f st = (if raised st = None then f st else st)"

definition seq ::
  "('a run_state_scheme \<Rightarrow> 'a run_state_scheme) list \<Rightarrow> 'a run_state_scheme
     \<Rightarrow> 'a run_state_scheme" where
  "seq fs st = foldl (\<lambda>s f. step f s) st fs"

section \<open>Removal of managed resources (app/services/mikrotik_client.py)\<close>

text \<open>
  One loop of \<^verbatim>\<open>remove_managed_resources\<close>: list the family with the prefix as comment
  filter, then delete every listed resource by its id.
\<close>

definition remove_listed :: "family \<Rightarrow> 'a run_state_scheme \<Rightarrow> 'a run_state_scheme" where
  "remove_listed fam st =
     seq (map (\<lambda>x. client_write (Remove fam (dot_id x)))
            (comment_filtered COMMENT_PREFIX (get_family fam (device st))))
       (client_read fam st)"

text \<open>
  \<^verbatim>\<open>remove_managed_resources\<close>: the loops in the source's order, NAT rules, firewall filter
  rules, routes, IP addresses, WireGuard peers, WireGuard interfaces.
\<close>

definition remove_managed_resources :: "'a run_state_scheme \<Rightarrow> 'a run_state_scheme" where
  "remove_managed_resources st =
     seq [remove_listed FIREWALL_FILTER, remove_listed ROUTE, remove_listed IP_ADDRESS,
          remove_listed WG_PEER, remove_listed WG_INTERFACE]
       (remove_listed NAT_RULE st)"

text \<open>
  A router with one managed resource in every family, an unmanaged route, and one NAT
  rule that another tool left behind: its comment mentions the prefix but does not begin
  with it.
\<close>

definition managed_resource :: "string \<Rightarrow> string \<Rightarrow> resource" where
  "managed_resource rid c =
     \<lparr>dot_id = rid, comment = Some (COMMENT_PREFIX @ c), res_name = None, interface = None,
      running = False, attrs = []\<rparr>"

definition foreign_nat_rule :: resource where
  "foreign_nat_rule =
     \<lparr>dot_id = ''*1'', comment = Some ''copy of WAN-Overlay-Manager:service-1'',
      res_name = None, interface = None, running = False,
      attrs = [(''chain'', ''dstnat''), (''action'', ''dst-nat'')]\<rparr>"

definition unmanaged_route :: resource where
  "unmanaged_route =
     \<lparr>dot_id = ''*8'', comment = None, res_name = None, interface = None, running = False,
      attrs = [(''dst-address'', ''0.0.0.0/0'')]\<rparr>"

definition empty_router :: router where
  "empty_router =
     \<lparr>wireguard_interfaces = [], wireguard_peers = [], ip_addresses = [], routes = [],
      firewall_filter_rules = [], nat_rules = []\<rparr>"

definition shared_router :: router where
  "shared_router =
     \<lparr>wireguard_interfaces = [managed_resource ''*7'' ''peer-P''],
      wireguard_peers = [managed_resource ''*6'' ''peer-Q''],
      ip_addresses = [managed_resource ''*5'' ''peer-P''],
      routes = [unmanaged_route, managed_resource ''*4'' ''route-1''],
      firewall_filter_rules = [managed_resource ''*3'' ''wan-W''],
      nat_rules = [foreign_nat_rule, managed_resource ''*2'' ''service-1'']\<rparr>"

section \<open>Removal of managed resources deletes a foreign resource\<close>

lemma foreign_comment:
  "\<not> startswith (comment_or_empty foreign_nat_rule) COMMENT_PREFIX
   \<and> contains_str COMMENT_PREFIX (comment_or_empty foreign_nat_rule)"
  by (simp add: foreign_nat_rule_def comment_or_empty_def COMMENT_PREFIX_def startswith_def)

lemma managed_comment:
  "contains_str COMMENT_PREFIX (comment_or_empty (managed_resource rid c))"
  by (cases c) (simp_all add: managed_resource_def comment_or_empty_def COMMENT_PREFIX_def
      startswith_def)

lemma unmanaged_comment:
  "\<not> contains_str COMMENT_PREFIX (comment_or_empty unmanaged_route)"
  by (simp add: unmanaged_route_def comment_or_empty_def COMMENT_PREFIX_def)

lemma prefix_not_empty: "COMMENT_PREFIX \<noteq> []"
  by (simp add: COMMENT_PREFIX_def)

lemmas removal_eval = remove_managed_resources_def remove_listed_def init_run_def seq_def
  step_def client_read_def client_write_def comment_filtered_def prefix_not_empty
  foreign_comment managed_comment unmanaged_comment delete_resource_def shared_router_def
  empty_router_def get_managed_resources_def

lemma ids:
  "dot_id foreign_nat_rule = ''*1''" "dot_id unmanaged_route = ''*8''"
  "dot_id (managed_resource rid c) = rid"
  by (simp_all add: foreign_nat_rule_def unmanaged_route_def managed_resource_def)

lemma removal_device:
  "device (remove_managed_resources (init_run shared_router (\<lambda>n. None)))
     = empty_router\<lparr>routes := [unmanaged_route]\<rparr>"
  by (simp add: removal_eval ids)

lemma removal_trace:
  "trace (remove_managed_resources (init_run shared_router (\<lambda>n. None)))
     = [ClientRead NAT_RULE, ClientWrite (Remove NAT_RULE ''*1''),
        ClientWrite (Remove NAT_RULE ''*2''),
        ClientRead FIREWALL_FILTER, ClientWrite (Remove FIREWALL_FILTER ''*3''),
        ClientRead ROUTE, ClientWrite (Remove ROUTE ''*4''),
        ClientRead IP_ADDRESS, ClientWrite (Remove IP_ADDRESS ''*5''),
        ClientRead WG_PEER, ClientWrite (Remove WG_PEER ''*6''),
        ClientRead WG_INTERFACE, ClientWrite (Remove WG_INTERFACE ''*7'')]"
  by (simp add: removal_eval ids)

lemma removal_raises_nothing:
  "raised (remove_managed_resources (init_run shared_router (\<lambda>n. None))) = None"
  by (simp add: removal_eval ids)

lemma foreign_rule_is_held: "foreign_nat_rule \<in> set (nat_rules shared_router)"
  by (simp add: shared_router_def)

text \<open>
  C7 fails on the code. The comment filter of the list operations is a substring test, so
  \<^verbatim>\<open>remove_managed_resources\<close> deletes every resource whose comment contains the prefix
  anywhere. On the router above, with no call failing, the foreign NAT rule, whose comment
  does not begin with the prefix, is deleted first. The rest of the claim shows on the same
  run: the deletions go family by family in the order NAT, firewall, routes, addresses,
  peers, interfaces, the unmanaged route stays, and afterwards no family lists a managed
  resource.
\<close>

theorem remove_managed_resources_deletes_foreign_rule:
  "foreign_nat_rule \<in> set (nat_rules shared_router)
   \<and> \<not> startswith (comment_or_empty foreign_nat_rule) COMMENT_PREFIX
   \<and> raised (remove_managed_resources (init_run shared_router (\<lambda>n. None))) = None
   \<and> trace (remove_managed_resources (init_run shared_router (\<lambda>n. None)))
       = [ClientRead NAT_RULE, ClientWrite (Remove NAT_RULE (dot_id foreign_nat_rule)),
          ClientWrite (Remove NAT_RULE ''*2''),
          ClientRead FIREWALL_FILTER, ClientWrite (Remove FIREWALL_FILTER ''*3''),
          ClientRead ROUTE, ClientWrite (Remove ROUTE ''*4''),
          ClientRead IP_ADDRESS, ClientWrite (Remove IP_ADDRESS ''*5''),
          ClientRead WG_PEER, ClientWrite (Remove WG_PEER ''*6''),
          ClientRead WG_INTERFACE, ClientWrite (Remove WG_INTERFACE ''*7'')]
   \<and> device (remove_managed_resources (init_run shared_router (\<lambda>n. None)))
       = empty_router\<lparr>routes := [unmanaged_route]\<rparr>
   \<and> get_managed_resources (device (remove_managed_resources (init_run shared_router (\<lambda>n. None))))
       = empty_router"
proof -
  have after: "get_managed_resources
       (device (remove_managed_resources (init_run shared_router (\<lambda>n. None)))) = empty_router"
    unfolding removal_device
    by (simp add: get_managed_resources_def empty_router_def comment_filtered_def
        prefix_not_empty unmanaged_comment)
  show ?thesis
    using foreign_rule_is_held foreign_comment removal_raises_nothing removal_trace
      removal_device after
    by (simp only: ids simp_thms)
qed


section \<open>Starting, retrying and cancelling a job\<close>

text \<open>
  \<^verbatim>\<open>create_deployment_job\<close> adds a pending job with progress 0; \<open>new_id\<close> is the \<^verbatim>\<open>uuid4\<close>
  drawn for it.
\<close>

definition create_deployment_job ::
  "deployment_job list \<Rightarrow> string \<Rightarrow> string \<Rightarrow> job_type \<Rightarrow> string option
     \<Rightarrow> deployment_job \<times> deployment_job list" where
  "create_deployment_job jobs new_id pid jt created_by =
     (let j = \<lparr>job_id = new_id, job_peer_id = pid, jtype = jt, status = PENDING,
                progress_percent = 0, backup_config = None,
                created_by_id = created_by\<rparr>
      in (j, jobs @ [j]))"

text \<open>
  \<^verbatim>\<open>deploy_configuration\<close> (app/services/deployment.py): the peer must exist and be a
  MikroTik device; then the job is created and the background task is started for it.
  The result is the new job, the jobs table, and the id of the job whose worker was
  launched. The jobs of the peer are not consulted.
\<close>

definition deploy_configuration ::
  "peer list \<Rightarrow> deployment_job list \<Rightarrow> string \<Rightarrow> string \<Rightarrow> string option
     \<Rightarrow> py_error + (deployment_job \<times> deployment_job list \<times> string)" where
  "deploy_configuration peers jobs new_id pid created_by =
     (case find (\<lambda>p. peer_id p = pid) peers of
        None \<Rightarrow> Inl (ValueError ''Peer not found'')
      | Some p \<Rightarrow>
          if ptype p \<noteq> MIKROTIK then Inl (ValueError ''Peer is not a MikroTik device'')
          else (case create_deployment_job jobs new_id pid DEPLOY_CONFIG created_by of
                  (j, jobs') \<Rightarrow> Inr (j, jobs', job_id j)))"

text \<open>\<^verbatim>\<open>retry_job\<close> and \<^verbatim>\<open>cancel_job\<close> (app/api/endpoints/deployments.py).\<close>

definition retry_job ::
  "peer list \<Rightarrow> deployment_job list \<Rightarrow> string \<Rightarrow> string
     \<Rightarrow> py_error + (deployment_job \<times> deployment_job list \<times> string)" where
  "retry_job peers jobs new_id jid =
     (case find (\<lambda>j. job_id j = jid) jobs of
        None \<Rightarrow> Inl (HTTPException 404 (Detail ''Deployment job not found''))
      | Some j \<Rightarrow>
          if status j \<noteq> FAILED then Inl (HTTPException 400 (Detail ''Can only retry failed jobs''))
          else deploy_configuration peers jobs new_id (job_peer_id j) (created_by_id j))"



text \<open>The jobs of a peer that are pending or running.\<close>

definition active_jobs :: "deployment_job list \<Rightarrow> string \<Rightarrow> deployment_job list" where
  "active_jobs jobs pid =
     filter (\<lambda>j. job_peer_id j = pid \<and> (status j = PENDING \<or> status j = RUNNING)) jobs"

section \<open>The apply worker (\<^verbatim>\<open>_execute_deployment\<close>)\<close>

text \<open>
  The worker is a run against the router that also assigns to its job and commits. Its
  state extends the state of a run by the job as the worker's session sees it. Of the job
  the model keeps the columns the properties below speak of: the status, the progress and
  the backup; the timestamps, the error message and the operations log are left out.
\<close>

record desired_state =
  d_interface :: resource
  d_peers :: "resource list"
  d_ip_addresses :: "resource list"
  d_routes :: "resource list"
  d_firewall_rules :: "resource list"
  d_nat_rules :: "resource list"

record wstate = run_state +
  job :: deployment_job

definition set_status :: "job_status \<Rightarrow> wstate \<Rightarrow> wstate" where
  "set_status s st = st\<lparr>job := (job st)\<lparr>status := s\<rparr>, trace := trace st @ [SetStatus s]\<rparr>"

definition set_progress :: "nat \<Rightarrow> wstate \<Rightarrow> wstate" where
  "set_progress n st =
     st\<lparr>job := (job st)\<lparr>progress_percent := n\<rparr>, trace := trace st @ [SetProgress n]\<rparr>"

definition set_backup :: "router \<Rightarrow> wstate \<Rightarrow> wstate" where
  "set_backup b st =
     st\<lparr>job := (job st)\<lparr>backup_config := Some b\<rparr>, trace := trace st @ [SetBackup b]\<rparr>"

definition commit :: "wstate \<Rightarrow> wstate" where
  "commit st = st\<lparr>trace := trace st @ [Commit]\<rparr>"

text \<open>
  The resources the worker treats as managed:
  \<^verbatim>\<open>comment and comment.startswith(self.COMMENT_PREFIX)\<close>.
\<close>

definition is_managed :: "resource \<Rightarrow> bool" where
  "is_managed x = (comment_or_empty x \<noteq> [] \<and> startswith (comment_or_empty x) COMMENT_PREFIX)"

text \<open>
  The \<^verbatim>\<open>interface\<close> argument of the list operations:
  \<^verbatim>\<open>if interface: result = [r for r in result if r.get("interface") == interface]\<close>.
\<close>

definition on_interface :: "string \<Rightarrow> resource list \<Rightarrow> resource list" where
  "on_interface iname xs =
     (if iname = [] then xs else filter (\<lambda>x. interface x = Some iname) xs)"

text \<open>\<^verbatim>\<open>interface_name = peer.mikrotik_interface_name or "wg-wan-overlay"\<close>.\<close>

definition interface_name :: "string option \<Rightarrow> string" where
  "interface_name mikrotik_interface_name =
     (case mikrotik_interface_name of
        None \<Rightarrow> ''wg-wan-overlay''
      | Some n \<Rightarrow> if n = [] then ''wg-wan-overlay'' else n)"

text \<open>The steps of the \<^verbatim>\<open>try\<close> body, in the source's order.\<close>

definition start :: "wstate \<Rightarrow> wstate" where
  "start st = commit (set_progress 5 (set_status RUNNING st))"

text \<open>
  Decrypting the stored credentials may raise: \<open>credentials_error\<close> is the exception, if
  any. \<^verbatim>\<open>test_connection\<close> catches every exception and reports failure in its result:
  \<open>connection_error\<close> is the error message of a result without success, on which the
  worker raises.
\<close>

definition connect :: "py_error option \<Rightarrow> string option \<Rightarrow> wstate \<Rightarrow> wstate" where
  "connect credentials_error connection_error st =
     (case credentials_error of
        Some e \<Rightarrow> raise e st
      | None \<Rightarrow>
          (let st1 = st\<lparr>trace := trace st @ [TestConnection]\<rparr> in
           case connection_error of
             Some m \<Rightarrow> raise (MikrotikAPIError (''Connection test failed: '' @ m)) st1
           | None \<Rightarrow> commit (set_progress 10 st1)))"

definition capture_backup :: "wstate \<Rightarrow> wstate" where
  "capture_backup st =
     seq [client_read WG_PEER, client_read IP_ADDRESS, client_read ROUTE,
          client_read FIREWALL_FILTER, client_read NAT_RULE,
          (\<lambda>s. commit (set_progress 20 (set_backup (get_managed_resources (device s)) s)))]
       (client_read WG_INTERFACE st)"

text \<open>
  Step 1: the interface named \<open>iname\<close> is updated if the router has one, and created
  under that name otherwise.
\<close>

definition ensure_interface :: "string \<Rightarrow> desired_state \<Rightarrow> wstate \<Rightarrow> wstate" where
  "ensure_interface iname d st =
     seq [(\<lambda>s. case find (\<lambda>x. res_name x = Some iname) (wireguard_interfaces (device s)) of
                 Some x \<Rightarrow> client_write (Update WG_INTERFACE (dot_id x) (d_interface d)) s
               | None \<Rightarrow>
                   client_write (Add WG_INTERFACE ((d_interface d)\<lparr>res_name := Some iname\<rparr>)) s),
          (\<lambda>s. commit (set_progress 30 s))]
       (client_read WG_INTERFACE st)"

definition remove_managed :: "family \<Rightarrow> (resource list \<Rightarrow> resource list) \<Rightarrow> wstate \<Rightarrow> wstate" where
  "remove_managed fam selected st =
     seq (map (\<lambda>x. client_write (Remove fam (dot_id x)))
            (filter is_managed (selected (get_family fam (device st)))))
       (client_read fam st)"

definition add_desired :: "family \<Rightarrow> resource list \<Rightarrow> wstate \<Rightarrow> wstate" where
  "add_desired fam xs st = seq (map (\<lambda>x. client_write (Add fam x)) xs) st"

definition replace_peers :: "string \<Rightarrow> desired_state \<Rightarrow> wstate \<Rightarrow> wstate" where
  "replace_peers iname d st =
     seq [(\<lambda>s. commit (set_progress 40 s)), add_desired WG_PEER (d_peers d),
          (\<lambda>s. commit (set_progress 50 s))]
       (remove_managed WG_PEER (on_interface iname) st)"

definition replace_family ::
  "family \<Rightarrow> (resource list \<Rightarrow> resource list) \<Rightarrow> resource list \<Rightarrow> nat \<Rightarrow> wstate \<Rightarrow> wstate" where
  "replace_family fam selected xs percent st =
     seq [add_desired fam xs, (\<lambda>s. commit (set_progress percent s))]
       (remove_managed fam selected st)"

text \<open>
  \<open>desired\<close> is what decrypting the private key and \<^verbatim>\<open>get_mikrotik_desired_state\<close> give:
  the desired state, or the exception one of them raises.
\<close>

definition try_body ::
  "py_error option \<Rightarrow> string option \<Rightarrow> py_error + desired_state \<Rightarrow> string \<Rightarrow> wstate
     \<Rightarrow> wstate" where
  "try_body credentials_error connection_error desired iname st =
     (case desired of
        Inl e \<Rightarrow> seq [connect credentials_error connection_error, raise e] (start st)
      | Inr d \<Rightarrow>
          seq [connect credentials_error connection_error,
               (\<lambda>s. commit (set_progress 15 s)),
               capture_backup,
               ensure_interface iname d,
               replace_peers iname d,
               replace_family IP_ADDRESS (on_interface iname) (d_ip_addresses d) 60,
               replace_family ROUTE (\<lambda>xs. xs) (d_routes d) 70,
               replace_family FIREWALL_FILTER (\<lambda>xs. xs) (d_firewall_rules d) 80,
               replace_family NAT_RULE (\<lambda>xs. xs) (d_nat_rules d) 90,
               client_read WG_INTERFACE]
            (start st))"

text \<open>
  The end of the \<^verbatim>\<open>try\<close> body on success (progress 100, status completed, commit), and
  the two handlers, which both set the status to failed and commit (they differ in the
  error message they record).
\<close>

definition finish :: "wstate \<Rightarrow> wstate" where
  "finish st =
     (case raised st of
        None \<Rightarrow> commit (set_status COMPLETED (set_progress 100 st))
      | Some e \<Rightarrow> commit (set_status FAILED st))"

definition init_wstate :: "deployment_job \<Rightarrow> router \<Rightarrow> (nat \<Rightarrow> py_error option) \<Rightarrow> wstate" where
  "init_wstate j r f =
     \<lparr>device = r, failing = f, calls = 0, raised = None, trace = [], job = j\<rparr>"

text \<open>
  \<^verbatim>\<open>_execute_deployment\<close> for the job \<open>j\<close> on the router \<open>r\<close>; \<open>configured_name\<close> is the
  peer's \<^verbatim>\<open>mikrotik_interface_name\<close>.
\<close>

definition execute_deployment ::
  "py_error option \<Rightarrow> string option \<Rightarrow> py_error + desired_state \<Rightarrow> string option
     \<Rightarrow> deployment_job \<Rightarrow> router \<Rightarrow> (nat \<Rightarrow> py_error option) \<Rightarrow> wstate" where
  "execute_deployment credentials_error connection_error desired configured_name j r f =
     finish (try_body credentials_error connection_error desired (interface_name configured_name)
               (init_wstate j r f))"

text \<open>What a trace says about progress, the backup, the router writes and the status.\<close>

definition progress_values :: "event list \<Rightarrow> nat list" where
  "progress_values tr = List.map_filter (\<lambda>e. case e of SetProgress n \<Rightarrow> Some n | _ \<Rightarrow> None) tr"

definition backups :: "event list \<Rightarrow> router list" where
  "backups tr = List.map_filter (\<lambda>e. case e of SetBackup b \<Rightarrow> Some b | _ \<Rightarrow> None) tr"

definition status_values :: "event list \<Rightarrow> job_status list" where
  "status_values tr = List.map_filter (\<lambda>e. case e of SetStatus s \<Rightarrow> Some s | _ \<Rightarrow> None) tr"

fun is_write :: "event \<Rightarrow> bool" where
  "is_write (ClientWrite w) = True"
| "is_write e = False"

fun is_backup :: "event \<Rightarrow> bool" where
  "is_backup (SetBackup b) = True"
| "is_backup e = False"

definition writes :: "event list \<Rightarrow> event list" where
  "writes tr = filter is_write tr"

definition before_backup :: "event list \<Rightarrow> event list" where
  "before_backup tr = takeWhile (\<lambda>e. \<not> is_backup e) tr"

definition milestones :: "nat list" where
  "milestones = [5, 10, 15, 20, 30, 50, 60, 70, 80, 90, 100]"

text \<open>A MikroTik peer, jobs for it, and a small desired state, for the examples.\<close>

definition mt_peer :: peer where
  "mt_peer = \<lparr>peer_id = ''P'', wan_id = ''W'', peer_name = ''router'', ptype = MIKROTIK,
     public_key = Some ''K'', private_key_encrypted = Some ''E'', tunnel_ip = Some ''10.0.0.1'',
     endpoint = None, listen_port = Some 51820, persistent_keepalive = Some 25,
     route_all_traffic = False, local_subnets = [], published_services = []\<rparr>"

definition new_job :: "string \<Rightarrow> deployment_job" where
  "new_job jid = fst (create_deployment_job [] jid ''P'' DEPLOY_CONFIG None)"

definition managed :: "string \<Rightarrow> resource" where
  "managed c = \<lparr>dot_id = [], comment = Some (COMMENT_PREFIX @ c), res_name = None,
     interface = Some ''wg-wan-overlay'', running = False, attrs = []\<rparr>"

definition small_desired :: desired_state where
  "small_desired =
     \<lparr>d_interface = (managed ''peer-P'')\<lparr>res_name := Some ''wg-wan-overlay''\<rparr>,
      d_peers = [], d_ip_addresses = [managed ''peer-P''], d_routes = [],
      d_firewall_rules = [], d_nat_rules = []\<rparr>"


section \<open>Reading traces\<close>

lemma progress_values_append [simp]:
  "progress_values (xs @ ys) = progress_values xs @ progress_values ys"
  by (simp add: progress_values_def map_filter_def)

lemma backups_append [simp]: "backups (xs @ ys) = backups xs @ backups ys"
  by (simp add: backups_def map_filter_def)

lemma status_values_append [simp]: "status_values (xs @ ys) = status_values xs @ status_values ys"
  by (simp add: status_values_def map_filter_def)

lemma writes_append [simp]: "writes (xs @ ys) = writes xs @ writes ys"
  by (simp add: writes_def)

lemma trace_nil [simp]:
  "progress_values [] = []" "backups [] = []" "status_values [] = []" "writes [] = []"
  "before_backup [] = []"
  by (simp_all add: progress_values_def backups_def status_values_def writes_def
      before_backup_def map_filter_def)

lemma progress_values_Cons [simp]:
  "progress_values (SetProgress n # es) = n # progress_values es"
  "progress_values (SetStatus s # es) = progress_values es"
  "progress_values (SetBackup b # es) = progress_values es"
  "progress_values (Commit # es) = progress_values es"
  "progress_values (TestConnection # es) = progress_values es"
  "progress_values (ClientRead fam # es) = progress_values es"
  "progress_values (ClientWrite w # es) = progress_values es"
  by (simp_all add: progress_values_def map_filter_def)

lemma backups_Cons [simp]:
  "backups (SetProgress n # es) = backups es"
  "backups (SetStatus s # es) = backups es"
  "backups (SetBackup b # es) = b # backups es"
  "backups (Commit # es) = backups es"
  "backups (TestConnection # es) = backups es"
  "backups (ClientRead fam # es) = backups es"
  "backups (ClientWrite w # es) = backups es"
  by (simp_all add: backups_def map_filter_def)

lemma status_values_Cons [simp]:
  "status_values (SetProgress n # es) = status_values es"
  "status_values (SetStatus s # es) = s # status_values es"
  "status_values (SetBackup b # es) = status_values es"
  "status_values (Commit # es) = status_values es"
  "status_values (TestConnection # es) = status_values es"
  "status_values (ClientRead fam # es) = status_values es"
  "status_values (ClientWrite w # es) = status_values es"
  by (simp_all add: status_values_def map_filter_def)

lemma writes_Cons [simp]:
  "writes (SetProgress n # es) = writes es"
  "writes (SetStatus s # es) = writes es"
  "writes (SetBackup b # es) = writes es"
  "writes (Commit # es) = writes es"
  "writes (TestConnection # es) = writes es"
  "writes (ClientRead fam # es) = writes es"
  "writes (ClientWrite w # es) = ClientWrite w # writes es"
  by (simp_all add: writes_def)

lemma backups_empty_iff: "backups xs = [] \<longleftrightarrow> (\<forall>e \<in> set xs. \<not> is_backup e)"
proof (induction xs)
  case Nil
  then show ?case by simp
next
  case (Cons e es)
  then show ?case
    by (cases e) (simp_all add: backups_def map_filter_def)
qed

lemma before_backup_append:
  "before_backup (xs @ ys) = (if backups xs = [] then xs @ before_backup ys else before_backup xs)"
  by (auto simp: before_backup_def backups_empty_iff takeWhile_append1 takeWhile_append2)

lemma before_backup_Cons [simp]:
  "before_backup (SetProgress n # es) = SetProgress n # before_backup es"
  "before_backup (SetStatus s # es) = SetStatus s # before_backup es"
  "before_backup (SetBackup b # es) = []"
  "before_backup (Commit # es) = Commit # before_backup es"
  "before_backup (TestConnection # es) = TestConnection # before_backup es"
  "before_backup (ClientRead fam # es) = ClientRead fam # before_backup es"
  "before_backup (ClientWrite w # es) = ClientWrite w # before_backup es"
  by (simp_all add: before_backup_def)

section \<open>The invariant of the worker\<close>

text \<open>
  What holds of the worker's state after \<^verbatim>\<open>start\<close>, at every point of the \<^verbatim>\<open>try\<close> body:
  the progress values assigned so far are milestones (or 40), ascending and bounded by the
  job's progress; the status was set once, to running; and either no backup was taken, no
  write was sent and the router is as it was, or the backup is the managed resources of
  the router as it was, taken once, with no write before it.
\<close>

definition inv :: "router \<Rightarrow> wstate \<Rightarrow> bool" where
  "inv d0 st =
     (set (progress_values (trace st)) \<subseteq> insert 40 (set milestones)
      \<and> sorted (progress_values (trace st))
      \<and> (\<forall>n \<in> set (progress_values (trace st)). n \<le> progress_percent (job st))
      \<and> status_values (trace st) = [RUNNING]
      \<and> (case backup_config (job st) of
            None \<Rightarrow> backups (trace st) = [] \<and> writes (trace st) = [] \<and> device st = d0
          | Some b \<Rightarrow> b = get_managed_resources d0 \<and> backups (trace st) = [b]
                      \<and> writes (before_backup (trace st)) = []))"

definition at :: "router \<Rightarrow> nat \<Rightarrow> bool \<Rightarrow> wstate \<Rightarrow> bool" where
  "at d0 p b st =
     (inv d0 st
      \<and> (raised st = None \<longrightarrow>
            progress_percent (job st) = p \<and> (backup_config (job st) \<noteq> None) = b))"

lemmas prims = set_status_def set_progress_def set_backup_def commit_def
  raise_def client_read_def client_write_def

lemma seq_simps [simp]: "seq [] st = st" "seq (f # fs) st = seq fs (step f st)"
  by (simp_all add: seq_def)

lemma at_inv: "at d0 p b st \<Longrightarrow> inv d0 st"
  by (simp add: at_def)

lemma at_raised: "inv d0 st \<Longrightarrow> raised st \<noteq> None \<Longrightarrow> at d0 p b st"
  by (auto simp: at_def)

lemma at_step:
  assumes "at d0 p b st"
    and "\<And>s. at d0 p b s \<Longrightarrow> raised s = None \<Longrightarrow> at d0 p' b' (f s)"
  shows "at d0 p' b' (step f st)"
proof (cases "raised st = None")
  case True
  then show ?thesis
    using assms by (simp add: step_def)
next
  case False
  then show ?thesis
    using assms(1) by (auto simp: step_def at_def)
qed

lemma at_progress:
  assumes "at d0 p b s" and "raised s = None" and "p \<le> n" and "n \<in> insert 40 (set milestones)"
  shows "at d0 n b (commit (set_progress n s))"
  using assms
  by (auto simp: at_def inv_def prims sorted_append before_backup_append
      split: option.splits)

lemma at_read:
  assumes "at d0 p b s" and "raised s = None"
  shows "at d0 p b (client_read fam s)"
  using assms
  by (auto simp: at_def inv_def prims before_backup_append split: option.splits)

lemma at_write:
  assumes "at d0 p True s" and "raised s = None"
  shows "at d0 p True (client_write w s)"
  using assms
  by (auto simp: at_def inv_def prims before_backup_append split: option.splits)

lemma at_raise:
  assumes "at d0 p b s"
  shows "at d0 p' b' (raise e s)"
  using assms by (auto simp: at_def inv_def prims split: option.splits)

lemma at_backup:
  assumes "at d0 p False s" and "raised s = None" and "p \<le> 20"
  shows "at d0 20 True (commit (set_progress 20 (set_backup (get_managed_resources (device s)) s)))"
  using assms
  by (auto simp: at_def inv_def prims sorted_append before_backup_append milestones_def
      split: option.splits)

lemma at_writes:
  "at d0 p True st \<Longrightarrow> at d0 p True (seq (map (\<lambda>x. client_write (w x)) xs) st)"
proof (induction xs arbitrary: st)
  case Nil
  then show ?case by simp
next
  case (Cons x xs)
  have "at d0 p True (step (client_write (w x)) st)"
    using Cons.prems by (rule at_step) (rule at_write)
  then show ?case
    using Cons.IH by simp
qed

lemma at_remove_managed:
  assumes "at d0 p True s" and "raised s = None"
  shows "at d0 p True (remove_managed fam selected s)"
  unfolding remove_managed_def
  using assms by (intro at_writes at_read)

lemma at_add_desired:
  assumes "at d0 p True s"
  shows "at d0 p True (add_desired fam xs s)"
  unfolding add_desired_def using assms by (rule at_writes)

lemma at_replace_family:
  assumes "at d0 p True s" and "raised s = None" and "p \<le> q" and "q \<in> insert 40 (set milestones)"
  shows "at d0 q True (replace_family fam selected xs q s)"
proof -
  have 1: "at d0 p True (remove_managed fam selected s)"
    using assms(1,2) by (rule at_remove_managed)
  have 2: "at d0 p True (step (add_desired fam xs) (remove_managed fam selected s))"
    using 1 by (rule at_step) (rule at_add_desired)
  have 3: "at d0 q True
      (step (\<lambda>s. commit (set_progress q s)) (step (add_desired fam xs) (remove_managed fam selected s)))"
    using 2 by (rule at_step) (rule at_progress [OF _ _ assms(3,4)])
  then show ?thesis
    by (simp add: replace_family_def)
qed

lemma at_replace_peers:
  assumes "at d0 30 True s" and "raised s = None"
  shows "at d0 50 True (replace_peers iname d s)"
proof -
  let ?s1 = "remove_managed WG_PEER (on_interface iname) s"
  let ?s2 = "step (\<lambda>s. commit (set_progress 40 s)) ?s1"
  let ?s3 = "step (add_desired WG_PEER (d_peers d)) ?s2"
  let ?s4 = "step (\<lambda>s. commit (set_progress 50 s)) ?s3"
  have 1: "at d0 30 True ?s1"
    using assms by (rule at_remove_managed)
  have 2: "at d0 40 True ?s2"
    using 1 by (rule at_step) (rule at_progress, assumption+, simp_all)
  have 3: "at d0 40 True ?s3"
    using 2 by (rule at_step) (rule at_add_desired)
  have 4: "at d0 50 True ?s4"
    using 3 by (rule at_step) (rule at_progress, assumption+, simp_all add: milestones_def)
  then show ?thesis
    by (simp add: replace_peers_def)
qed

lemma at_ensure_interface:
  assumes "at d0 20 True s" and "raised s = None"
  shows "at d0 30 True (ensure_interface iname d s)"
proof -
  let ?w = "\<lambda>s. case find (\<lambda>x. res_name x = Some iname) (wireguard_interfaces (device s)) of
                 Some x \<Rightarrow> client_write (Update WG_INTERFACE (dot_id x) (d_interface d)) s
               | None \<Rightarrow>
                   client_write (Add WG_INTERFACE ((d_interface d)\<lparr>res_name := Some iname\<rparr>)) s"
  let ?s1 = "client_read WG_INTERFACE s"
  let ?s2 = "step ?w ?s1"
  have 1: "at d0 20 True ?s1"
    using assms by (rule at_read)
  have w: "at d0 20 True (?w t)" if "at d0 20 True t" "raised t = None" for t
    using that by (auto split: option.splits intro: at_write)
  have 2: "at d0 20 True ?s2"
    using 1 by (rule at_step) (rule w)
  have 3: "at d0 30 True (step (\<lambda>s. commit (set_progress 30 s)) ?s2)"
    using 2 by (rule at_step) (rule at_progress, assumption+, simp_all add: milestones_def)
  then show ?thesis
    by (simp add: ensure_interface_def)
qed

lemma at_capture_backup:
  assumes "at d0 15 False s" and "raised s = None"
  shows "at d0 20 True (capture_backup s)"
proof -
  let ?s1 = "client_read WG_INTERFACE s"
  let ?s2 = "step (client_read WG_PEER) ?s1"
  let ?s3 = "step (client_read IP_ADDRESS) ?s2"
  let ?s4 = "step (client_read ROUTE) ?s3"
  let ?s5 = "step (client_read FIREWALL_FILTER) ?s4"
  let ?s6 = "step (client_read NAT_RULE) ?s5"
  let ?b = "\<lambda>s. commit (set_progress 20 (set_backup (get_managed_resources (device s)) s))"
  have 1: "at d0 15 False ?s1"
    using assms by (rule at_read)
  have 2: "at d0 15 False ?s2"
    using 1 by (rule at_step) (rule at_read)
  have 3: "at d0 15 False ?s3"
    using 2 by (rule at_step) (rule at_read)
  have 4: "at d0 15 False ?s4"
    using 3 by (rule at_step) (rule at_read)
  have 5: "at d0 15 False ?s5"
    using 4 by (rule at_step) (rule at_read)
  have 6: "at d0 15 False ?s6"
    using 5 by (rule at_step) (rule at_read)
  have "at d0 20 True (step ?b ?s6)"
    using 6 by (rule at_step) (rule at_backup, assumption+, simp_all)
  then show ?thesis
    by (simp add: capture_backup_def)
qed

lemma at_start:
  assumes "progress_percent j = 0" and "backup_config j = None"
  shows "at d0 5 False (start (init_wstate j d0 f))"
  using assms
  by (simp add: at_def inv_def start_def init_wstate_def prims milestones_def)

lemma at_connect:
  assumes "at d0 5 False s" and "raised s = None"
  shows "at d0 10 False (connect c1 c2 s)"
proof -
  let ?s1 = "s\<lparr>trace := trace s @ [TestConnection]\<rparr>"
  have 1: "at d0 5 False ?s1"
    using assms by (auto simp: at_def inv_def before_backup_append split: option.splits)
  have r: "raised ?s1 = None"
    using assms(2) by simp
  have 2: "at d0 10 False (commit (set_progress 10 ?s1))"
    using 1 r by (rule at_progress) (simp_all add: milestones_def)
  show ?thesis
    using assms(1) 1 2 by (auto simp: connect_def Let_def intro: at_raise split: option.splits)
qed

text \<open>
  After the \<^verbatim>\<open>try\<close> body the invariant holds, whatever was raised; and when nothing was
  raised and the desired state was computed, progress is 90.
\<close>

lemma at_try_body:
  assumes "progress_percent j = 0" and "backup_config j = None"
  shows "\<exists>p b. at d0 p b (try_body c1 c2 desired iname (init_wstate j d0 f))
               \<and> p \<le> 90"
proof (cases desired)
  case (Inl e)
  let ?s0 = "start (init_wstate j d0 f)"
  have 0: "at d0 5 False ?s0"
    using assms by (rule at_start)
  have 1: "at d0 10 False (step (connect c1 c2) ?s0)"
    using 0 by (rule at_step) (rule at_connect)
  have "at d0 10 False (step (raise e) (step (connect c1 c2) ?s0))"
    using 1 by (rule at_step) (rule at_raise)
  then show ?thesis
    using Inl by (auto simp: try_body_def)
next
  case (Inr d)
  let ?s0 = "start (init_wstate j d0 f)"
  let ?s1 = "step (connect c1 c2) ?s0"
  let ?s2 = "step (\<lambda>s. commit (set_progress 15 s)) ?s1"
  let ?s3 = "step capture_backup ?s2"
  let ?s4 = "step (ensure_interface iname d) ?s3"
  let ?s5 = "step (replace_peers iname d) ?s4"
  let ?s6 = "step (replace_family IP_ADDRESS (on_interface iname) (d_ip_addresses d) 60) ?s5"
  let ?s7 = "step (replace_family ROUTE (\<lambda>xs. xs) (d_routes d) 70) ?s6"
  let ?s8 = "step (replace_family FIREWALL_FILTER (\<lambda>xs. xs) (d_firewall_rules d) 80) ?s7"
  let ?s9 = "step (replace_family NAT_RULE (\<lambda>xs. xs) (d_nat_rules d) 90) ?s8"
  let ?s10 = "step (client_read WG_INTERFACE) ?s9"
  have 0: "at d0 5 False ?s0"
    using assms by (rule at_start)
  have 1: "at d0 10 False ?s1"
    using 0 by (rule at_step) (rule at_connect)
  have 2: "at d0 15 False ?s2"
    using 1 by (rule at_step) (rule at_progress, assumption+, simp_all add: milestones_def)
  have 3: "at d0 20 True ?s3"
    using 2 by (rule at_step) (rule at_capture_backup)
  have 4: "at d0 30 True ?s4"
    using 3 by (rule at_step) (rule at_ensure_interface)
  have 5: "at d0 50 True ?s5"
    using 4 by (rule at_step) (rule at_replace_peers)
  have 6: "at d0 60 True ?s6"
    using 5 by (rule at_step) (rule at_replace_family, assumption+, simp_all add: milestones_def)
  have 7: "at d0 70 True ?s7"
    using 6 by (rule at_step) (rule at_replace_family, assumption+, simp_all add: milestones_def)
  have 8: "at d0 80 True ?s8"
    using 7 by (rule at_step) (rule at_replace_family, assumption+, simp_all add: milestones_def)
  have 9: "at d0 90 True ?s9"
    using 8 by (rule at_step) (rule at_replace_family, assumption+, simp_all add: milestones_def)
  have 10: "at d0 90 True ?s10"
    using 9 by (rule at_step) (rule at_read)
  have "try_body c1 c2 desired iname (init_wstate j d0 f) = ?s10"
    using Inr by (simp add: try_body_def)
  then show ?thesis
    using 10 by auto
qed


section \<open>Starting an apply does not look at the peer's other jobs\<close>

definition running_job :: deployment_job where
  "running_job = (new_job ''J1'')\<lparr>status := RUNNING, progress_percent := 50\<rparr>"

text \<open>
  C1 fails on the code: with a job of the peer running, \<^verbatim>\<open>deploy_configuration\<close> creates
  and launches a second one, and the peer then has two jobs pending or running.
\<close>

theorem second_concurrent_job_is_started:
  "active_jobs [running_job] ''P'' = [running_job]
   \<and> deploy_configuration [mt_peer] [running_job] ''J2'' ''P'' None
       = Inr (new_job ''J2'', [running_job, new_job ''J2''], ''J2'')
   \<and> active_jobs [running_job, new_job ''J2''] ''P'' = [running_job, new_job ''J2'']"
  by (simp add: deploy_configuration_def create_deployment_job_def active_jobs_def
      running_job_def new_job_def mt_peer_def Let_def)

text \<open>
  C1 (amended). \<^verbatim>\<open>deploy_configuration\<close> rejects a request only when the peer is missing
  or is not a MikroTik device. For a MikroTik peer it always creates a new pending job and
  launches its worker, whatever jobs the peer already has, so the peer's pending or
  running jobs grow by one; and retrying a failed job of that peer is this same call.
\<close>

theorem deploy_configuration_always_starts:
  assumes "find (\<lambda>p. peer_id p = pid) peers = Some p"
    and "ptype p = MIKROTIK"
  shows "\<exists>j. deploy_configuration peers jobs new_id pid created_by
               = Inr (j, jobs @ [j], new_id)
            \<and> job_id j = new_id \<and> job_peer_id j = pid \<and> status j = PENDING
            \<and> active_jobs (jobs @ [j]) pid = active_jobs jobs pid @ [j]
            \<and> (\<forall>jid old. find (\<lambda>x. job_id x = jid) jobs = Some old \<longrightarrow> status old = FAILED \<longrightarrow>
                   job_peer_id old = pid \<longrightarrow>
                   retry_job peers jobs new_id jid
                     = deploy_configuration peers jobs new_id pid (created_by_id old))"
  using assms
  by (simp add: deploy_configuration_def create_deployment_job_def active_jobs_def
      retry_job_def Let_def)

theorem deploy_configuration_always_starts_witness:
  "find (\<lambda>p. peer_id p = ''P'') [mt_peer] = Some mt_peer \<and> ptype mt_peer = MIKROTIK
   \<and> (\<exists>j. deploy_configuration [mt_peer] [running_job] ''J2'' ''P'' None
             = Inr (j, [running_job, j], ''J2'')
          \<and> status j = PENDING
          \<and> active_jobs [running_job, j] ''P'' = active_jobs [running_job] ''P'' @ [j])"
proof -
  have peer: "find (\<lambda>p. peer_id p = ''P'') [mt_peer] = Some mt_peer"
    and kind: "ptype mt_peer = MIKROTIK"
    by (simp_all add: mt_peer_def)
  from deploy_configuration_always_starts [OF peer kind, of "[running_job]" "''J2''" None]
  obtain j where "deploy_configuration [mt_peer] [running_job] ''J2'' ''P'' None
             = Inr (j, [running_job] @ [j], ''J2'')"
    and "status j = PENDING"
    and "active_jobs ([running_job] @ [j]) ''P'' = active_jobs [running_job] ''P'' @ [j]"
    by blast
  then show ?thesis
    using peer kind by auto
qed

section \<open>Backup and progress of the apply worker\<close>

lemma trace_finish:
  "trace (finish st) =
     trace st @ (case raised st of
                   None \<Rightarrow> [SetProgress 100, SetStatus COMPLETED, Commit]
                 | Some e \<Rightarrow> [SetStatus FAILED, Commit])"
  by (simp add: finish_def prims split: option.splits)

lemma finished_run:
  assumes "progress_percent j = 0" and "backup_config j = None"
  shows "\<exists>st. execute_deployment c1 c2 desired iname j d0 f = finish st \<and> inv d0 st
            \<and> (raised st = None \<longrightarrow> progress_percent (job st) \<le> 90)"
proof -
  obtain p b where "at d0 p b (try_body c1 c2 desired (interface_name iname) (init_wstate j d0 f))" and "p \<le> 90"
    using at_try_body [OF assms] by blast
  then show ?thesis
    by (auto simp: execute_deployment_def at_def)
qed

lemma new_job_fields:
  "progress_percent (fst (create_deployment_job jobs new_id pid jt created_by)) = 0"
  "backup_config (fst (create_deployment_job jobs new_id pid jt created_by)) = None"
  by (simp_all add: create_deployment_job_def Let_def)

lemma finish_progress_subset:
  assumes "inv d0 st"
  shows "set (progress_values (trace (finish st))) \<subseteq> insert 40 (set milestones)"
proof -
  have "set (progress_values (trace st)) \<subseteq> insert 40 (set milestones)"
    using assms by (simp add: inv_def)
  then show ?thesis
    by (cases "raised st") (simp_all add: trace_finish milestones_def)
qed

lemma finish_progress_sorted:
  assumes "inv d0 st" and "raised st = None \<longrightarrow> progress_percent (job st) \<le> 90"
  shows "sorted (progress_values (trace (finish st)))"
proof (cases "raised st")
  case None
  have sorted: "sorted (progress_values (trace st))"
    and bound: "\<forall>n \<in> set (progress_values (trace st)). n \<le> progress_percent (job st)"
    using assms(1) by (simp_all add: inv_def)
  have "n \<le> 100" if "n \<in> set (progress_values (trace st))" for n
  proof -
    have "n \<le> progress_percent (job st)"
      using bound that by blast
    moreover have "progress_percent (job st) \<le> 90"
      using assms(2) None by simp
    ultimately show ?thesis
      by simp
  qed
  then show ?thesis
    using sorted None by (simp add: trace_finish sorted_append)
next
  case (Some e)
  have "sorted (progress_values (trace st))"
    using assms(1) by (simp add: inv_def)
  then show ?thesis
    using Some by (simp add: trace_finish)
qed

lemma finish_backup:
  assumes "inv d0 st"
  shows "backups (trace (finish st)) = [] \<and> writes (trace (finish st)) = []
       \<or> backups (trace (finish st)) = [get_managed_resources d0]
         \<and> writes (before_backup (trace (finish st))) = []"
proof (cases "backup_config (job st)")
  case None
  then have "backups (trace st) = []" and "writes (trace st) = []"
    using assms by (simp_all add: inv_def)
  then show ?thesis
    by (cases "raised st") (simp_all add: trace_finish)
next
  case (Some b)
  then have b: "backups (trace st) = [get_managed_resources d0]"
    and w: "writes (before_backup (trace st)) = []"
    using assms by (simp_all add: inv_def)
  have "before_backup (trace (finish st)) = before_backup (trace st)"
    using b by (cases "raised st") (simp_all add: trace_finish before_backup_append)
  moreover have "backups (trace (finish st)) = [get_managed_resources d0]"
    using b by (cases "raised st") (simp_all add: trace_finish)
  ultimately show ?thesis
    using w by simp
qed

text \<open>
  C8 (amended). In every execution of the worker on a newly created job, whatever the
  router holds and whichever call fails: the values assigned to \<^verbatim>\<open>progress_percent\<close> are
  among 5, 10, 15, 20, 30, 40, 50, 60, 70, 80, 90, 100 (the milestone table and 40) and
  never decrease; and either the backup is never set and no write is sent to the router,
  or it is set exactly once, to the managed resources of the router as the worker found
  it, and no write is sent before it.
\<close>

theorem worker_backup_once_progress_ascending:
  "set (progress_values (trace (execute_deployment c1 c2 desired iname
          (fst (create_deployment_job jobs new_id pid DEPLOY_CONFIG created_by)) d0 f)))
     \<subseteq> insert 40 (set milestones)
   \<and> sorted (progress_values (trace (execute_deployment c1 c2 desired iname
          (fst (create_deployment_job jobs new_id pid DEPLOY_CONFIG created_by)) d0 f)))
   \<and> (backups (trace (execute_deployment c1 c2 desired iname
          (fst (create_deployment_job jobs new_id pid DEPLOY_CONFIG created_by)) d0 f)) = []
        \<and> writes (trace (execute_deployment c1 c2 desired iname
          (fst (create_deployment_job jobs new_id pid DEPLOY_CONFIG created_by)) d0 f)) = []
      \<or> backups (trace (execute_deployment c1 c2 desired iname
          (fst (create_deployment_job jobs new_id pid DEPLOY_CONFIG created_by)) d0 f))
           = [get_managed_resources d0]
        \<and> writes (before_backup (trace (execute_deployment c1 c2 desired iname
          (fst (create_deployment_job jobs new_id pid DEPLOY_CONFIG created_by)) d0 f))) = [])"
proof -
  let ?j = "fst (create_deployment_job jobs new_id pid DEPLOY_CONFIG created_by)"
  have fresh: "progress_percent ?j = 0" "backup_config ?j = None"
    by (simp_all add: new_job_fields)
  from finished_run [where j = ?j and ?c1.0 = c1 and ?c2.0 = c2 and desired = desired
      and iname = iname and ?d0.0 = d0 and f = f, OF fresh]
  obtain st where run: "execute_deployment c1 c2 desired iname ?j d0 f = finish st"
    and inv: "inv d0 st"
    and p90: "raised st = None \<longrightarrow> progress_percent (job st) \<le> 90"
    by (elim exE conjE)
  have 1: "set (progress_values (trace (finish st))) \<subseteq> insert 40 (set milestones)"
    using inv by (rule finish_progress_subset)
  have 2: "sorted (progress_values (trace (finish st)))"
    using inv p90 by (rule finish_progress_sorted)
  have 3: "backups (trace (finish st)) = [] \<and> writes (trace (finish st)) = []
         \<or> backups (trace (finish st)) = [get_managed_resources d0]
           \<and> writes (before_backup (trace (finish st))) = []"
    using inv by (rule finish_backup)
  show ?thesis
    unfolding run by (rule conjI [OF 1 conjI [OF 2 3]])
qed

text \<open>
  The claim as stated fails twice. A run in which every call succeeds assigns progress
  40, which is not in the milestone table; and a run whose connection test fails never
  sets the backup.
\<close>

lemmas run_eval = execute_deployment_def try_body_def start_def connect_def
  capture_backup_def ensure_interface_def replace_peers_def replace_family_def
  remove_managed_def add_desired_def finish_def init_wstate_def step_def prims new_job_def
  create_deployment_job_def small_desired_def managed_def empty_router_def on_interface_def
  interface_name_def
  is_managed_def add_resource_def delete_resource_def Let_def

lemma successful_run_progress:
  "progress_values (trace (execute_deployment None None (Inr small_desired) None
      (new_job ''J1'') empty_router (\<lambda>n. None)))
     = [5, 10, 15, 20, 30, 40, 50, 60, 70, 80, 90, 100]"
  by (simp add: run_eval)

lemma unreachable_run_backups:
  "backups (trace (execute_deployment None (Some ''timed out'') (Inr small_desired) None
      (new_job ''J1'') empty_router (\<lambda>n. None))) = []"
  by (simp add: run_eval)

theorem progress_40_and_run_without_backup:
  "progress_values (trace (execute_deployment None None (Inr small_desired) None
      (new_job ''J1'') empty_router (\<lambda>n. None)))
     = [5, 10, 15, 20, 30, 40, 50, 60, 70, 80, 90, 100]
   \<and> 40 \<notin> set milestones
   \<and> backups (trace (execute_deployment None (Some ''timed out'') (Inr small_desired) None
      (new_job ''J1'') empty_router (\<lambda>n. None))) = []"
  using successful_run_progress unreachable_run_backups by (simp add: milestones_def)

section \<open>Cancellation and the apply worker\<close>

















section \<open>Listing services (app/api/endpoints/services.py)\<close>

text \<open>
  A name read in a function body is looked up among the function's local names (its
  parameters and the names its body assigns), then among the module's global names, then
  among the builtins. These are the names of \<^verbatim>\<open>list_services\<close> and of the module
  \<^verbatim>\<open>services.py\<close>; no builtin is called \<^verbatim>\<open>wan\<close>.
\<close>

definition list_services_locals :: "string list" where
  "list_services_locals =
     [''wan_id'', ''skip'', ''limit'', ''peer_id'', ''db'', ''wan_result'', ''query'',
      ''result'', ''services'', ''count_query'', ''count_result'', ''total'', ''pihole'',
      ''wan_name'', ''items'', ''s'', ''hostname'']"

definition services_module_globals :: "string list" where
  "services_module_globals =
     [''Optional'', ''uuid'', ''APIRouter'', ''Depends'', ''HTTPException'', ''status'',
      ''Query'', ''select'', ''func'', ''AsyncSession'', ''selectinload'', ''get_db'', ''Peer'',
      ''PeerType'', ''PublishedService'', ''WanNetwork'', ''ServiceCreate'', ''ServiceUpdate'',
      ''ServiceResponse'', ''ServiceListResponse'', ''IPAllocationService'',
      ''DeploymentService'', ''PiHoleService'', ''_slugify'', ''router'',
      ''build_service_response'', ''list_services'', ''create_service'', ''get_service'',
      ''update_service'', ''delete_service'']"

definition load_name :: "string \<Rightarrow> py_error + unit" where
  "load_name n =
     (if n \<in> set list_services_locals \<or> n \<in> set services_module_globals then Inr ()
      else Inl (NameError n))"

text \<open>
  \<^verbatim>\<open>list_services\<close>: the WAN row is fetched and tested in the condition of the \<^verbatim>\<open>if\<close>, and
  bound to no name. After the two queries the body reads \<^verbatim>\<open>wan\<close>
  (\<^verbatim>\<open>wan_name = wan.name if wan else None\<close>) before it builds the response. The response
  pairs each service with its hostname, which \<open>build_hostname\<close> gives when the DNS
  integration is configured.
\<close>

definition wan_services :: "peer list \<Rightarrow> string \<Rightarrow> string option \<Rightarrow> published_service list" where
  "wan_services peers wid peer_filter =
     concat (map published_services
       (filter (\<lambda>p. wan_id p = wid \<and> (truthy peer_filter \<longrightarrow> peer_filter = Some (peer_id p)))
          peers))"

definition list_services ::
  "wan_network list \<Rightarrow> peer list \<Rightarrow> string \<Rightarrow> nat \<Rightarrow> nat \<Rightarrow> string option
     \<Rightarrow> (string \<Rightarrow> string \<Rightarrow> string) option
     \<Rightarrow> py_error + ((published_service \<times> string option) list \<times> nat)" where
  "list_services wans peers wid skip limit peer_filter build_hostname =
     (case find (\<lambda>w. wan_network_id w = wid) wans of
        None \<Rightarrow> Inl (HTTPException 404 (Detail ''WAN network not found''))
      | Some _ \<Rightarrow>
          (let services = take limit (drop skip (wan_services peers wid peer_filter));
               total = length (wan_services peers wid peer_filter)
           in case load_name ''wan'' of
                Inl e \<Rightarrow> Inl e
              | Inr _ \<Rightarrow>
                  Inr (map (\<lambda>s. (s, map_option (\<lambda>b. b (service_name s) (service_id s))
                                       build_hostname)) services,
                       total)))"

section \<open>Listing the services of an existing WAN always fails\<close>

lemma wan_is_unbound: "load_name ''wan'' = Inl (NameError ''wan'')"
  by (simp add: load_name_def list_services_locals_def services_module_globals_def)

lemma list_services_never_succeeds:
  "list_services wans peers wid skip limit peer_filter build_hostname \<noteq> Inr r"
  by (simp add: list_services_def wan_is_unbound Let_def split: option.splits)

text \<open>
  C10. For every WAN that exists, \<^verbatim>\<open>list_services\<close> raises \<^verbatim>\<open>NameError\<close> for the name
  \<^verbatim>\<open>wan\<close>, whatever the peers, the services, the paging and the filter are; and for no
  input at all does it return a service list.
\<close>

theorem list_services_raises_name_error:
  assumes "find (\<lambda>w. wan_network_id w = wid) wans = Some wan"
  shows "list_services wans peers wid skip limit peer_filter build_hostname
           = Inl (NameError ''wan'')
       \<and> (\<forall>wans' peers' wid' skip' limit' peer_filter' build_hostname' r.
             list_services wans' peers' wid' skip' limit' peer_filter' build_hostname' \<noteq> Inr r)"
proof (intro conjI allI)
  show "list_services wans peers wid skip limit peer_filter build_hostname
          = Inl (NameError ''wan'')"
    using assms by (simp add: list_services_def wan_is_unbound Let_def)
qed (rule list_services_never_succeeds)

theorem list_services_raises_name_error_witness:
  "find (\<lambda>w. wan_network_id w = ''W'') [s2_wan] = Some s2_wan
   \<and> list_services [s2_wan] [] ''W'' 0 100 None None = Inl (NameError ''wan'')"
proof -
  have wan: "find (\<lambda>w. wan_network_id w = ''W'') [s2_wan] = Some s2_wan"
    by (simp add: s2_wan_def)
  from list_services_raises_name_error [OF wan, of "[]" 0 100 None None]
  show ?thesis
    using wan by simp
qed


end
